theory Spec2Isabelle
  imports Complex_Main "HOL-Library.Word"
begin

unbundle bit_operations_syntax

section \<open>Bytes and little-endian fields\<close>

type_synonym byte = "8 word"

text \<open>\<open>DataView.setUint16(off, v, true)\<close> and \<open>setUint32(off, v, true)\<close>: the value
  reduced to the field's width, least significant byte first.\<close>

definition u16le :: "16 word \<Rightarrow> byte list" where
  "u16le w = [ucast w, ucast (drop_bit 8 w)]"

definition u32le :: "32 word \<Rightarrow> byte list" where
  "u32le w = [ucast w, ucast (drop_bit 8 w), ucast (drop_bit 16 w), ucast (drop_bit 24 w)]"

definition ascii :: "string \<Rightarrow> byte list" where
  "ascii s = map (\<lambda>c. of_nat (of_char c)) s"

section \<open>Audio buffers\<close>

text \<open>The Web Audio \<open>AudioBuffer\<close>: \<open>numberOfChannels\<close> channels of \<open>length\<close> sample
  frames each (the field is named \<open>buf_length\<close> here, \<open>length\<close> being the list function),
  at \<open>sampleRate\<close> frames per second. \<open>getChannelData b ch i\<close> is entry \<open>i\<close> of the
  \<open>Float32Array\<close> that \<open>getChannelData(ch)\<close> returns; a sample is a real number, the
  rounding of 32-bit floats is not modelled.\<close>

record AudioBuffer =
  numberOfChannels :: nat
  buf_length :: nat
  sampleRate :: nat
  getChannelData :: "nat \<Rightarrow> nat \<Rightarrow> real"

section \<open>The WAV encoder\<close>

text \<open>Modelled from the spec: \<open>audioBufferToWav\<close> of \<open>services/audioUtils\<close>, which
  \<open>App.tsx\<close> imports and which is not among the sources. The spec's words: the encoder
  "interleaves per-channel samples, converts each float sample in [-1,1] to a 16-bit
  little-endian signed integer (clamped), and writes a standard 44-byte RIFF/WAVE header
  (format tag 1 = PCM, given channel count, sample rate, 16-bit depth) followed by the
  interleaved sample bytes".

  The spec gives no scale factor and no rounding rule for the conversion, so the map
  from a clamped sample to its integer is the parameter \<open>scale\<close>; the clamping and the
  reduction to 16 bits are written out.\<close>

definition floatTo16BitPCM :: "(real \<Rightarrow> int) \<Rightarrow> real \<Rightarrow> 16 word" where
  "floatTo16BitPCM scale x = word_of_int (scale (max (- 1) (min 1 x)))"

definition interleave :: "AudioBuffer \<Rightarrow> real list" where
  "interleave b =
     concat (map (\<lambda>i. map (\<lambda>ch. getChannelData b ch i) [0 ..< numberOfChannels b])
                 [0 ..< buf_length b])"

definition wavData :: "(real \<Rightarrow> int) \<Rightarrow> AudioBuffer \<Rightarrow> byte list" where
  "wavData scale b = concat (map (\<lambda>x. u16le (floatTo16BitPCM scale x)) (interleave b))"

text \<open>The canonical 44-byte header of a PCM file: the RIFF chunk descriptor, the 16-byte
  \<open>fmt\<close> chunk and the head of the \<open>data\<close> chunk.\<close>

definition wavHeader :: "AudioBuffer \<Rightarrow> byte list" where
  "wavHeader b =
     (let numChannels = numberOfChannels b;
          bitDepth = 16;
          bytesPerSample = bitDepth div 8;
          blockAlign = numChannels * bytesPerSample;
          dataLength = buf_length b * blockAlign
      in ascii ''RIFF'' @ u32le (of_nat (36 + dataLength)) @ ascii ''WAVE''
       @ ascii ''fmt '' @ u32le 16
       @ u16le 1
       @ u16le (of_nat numChannels)
       @ u32le (of_nat (sampleRate b))
       @ u32le (of_nat (sampleRate b * blockAlign))
       @ u16le (of_nat blockAlign)
       @ u16le (of_nat bitDepth)
       @ ascii ''data'' @ u32le (of_nat dataLength))"

definition audioBufferToWav :: "(real \<Rightarrow> int) \<Rightarrow> AudioBuffer \<Rightarrow> byte list" where
  "audioBufferToWav scale b = wavHeader b @ wavData scale b"

text \<open>The bytes of a file from offset \<open>off\<close>, \<open>n\<close> of them.\<close>

definition field :: "nat \<Rightarrow> nat \<Rightarrow> byte list \<Rightarrow> byte list" where
  "field off n bs = take n (drop off bs)"

section \<open>The radar visualizer\<close>

text \<open>What \<open>draw\<close> (\<open>components/RadarVisualizer.tsx\<close>) does to the 2D context of its
  canvas. The context is the state: the attributes \<open>draw\<close> assigns, the current path, and
  the shapes painted on the bitmap since it was last cleared whole. A painted shape
  records the attributes in force when \<open>fill\<close> or \<open>stroke\<close> ran. Coordinates, angles and
  colour stops are real numbers.\<close>

datatype js_error = Error string | TypeError string

datatype paint =
    Color string
  | LinearGradient real real real real "(real \<times> string) list"
  | RadialGradient real real real real real real "(real \<times> string) list"

datatype lineCap = Butt | Round | Square

datatype seg = MoveTo real real | LineTo real real | Arc real real real real real

datatype shape =
    Fill paint "seg list"
  | Stroke paint real lineCap "seg list"
  | Erase real real real real

record Canvas2D =
  width :: real
  height :: real
  fillStyle :: paint
  strokeStyle :: paint
  lineWidth :: real
  lineCap :: lineCap
  path :: "seg list"
  painted :: "shape list"

definition clearRect :: "Canvas2D \<Rightarrow> real \<Rightarrow> real \<Rightarrow> real \<Rightarrow> real \<Rightarrow> Canvas2D" where
  "clearRect ctx x y w h =
     (if x \<le> 0 \<and> y \<le> 0 \<and> width ctx \<le> x + w \<and> height ctx \<le> y + h
      then ctx\<lparr>painted := []\<rparr>
      else ctx\<lparr>painted := painted ctx @ [Erase x y w h]\<rparr>)"

definition createLinearGradient :: "real \<Rightarrow> real \<Rightarrow> real \<Rightarrow> real \<Rightarrow> paint" where
  "createLinearGradient x0 y0 x1 y1 = LinearGradient x0 y0 x1 y1 []"

definition createRadialGradient :: "real \<Rightarrow> real \<Rightarrow> real \<Rightarrow> real \<Rightarrow> real \<Rightarrow> real \<Rightarrow> paint" where
  "createRadialGradient x0 y0 r0 x1 y1 r1 = RadialGradient x0 y0 r0 x1 y1 r1 []"

fun addColorStop :: "paint \<Rightarrow> real \<Rightarrow> string \<Rightarrow> paint" where
  "addColorStop (LinearGradient x0 y0 x1 y1 stops) off col =
     LinearGradient x0 y0 x1 y1 (stops @ [(off, col)])"
| "addColorStop (RadialGradient x0 y0 r0 x1 y1 r1 stops) off col =
     RadialGradient x0 y0 r0 x1 y1 r1 (stops @ [(off, col)])"
| "addColorStop (Color c) off col = Color c"

definition beginPath :: "Canvas2D \<Rightarrow> Canvas2D" where
  "beginPath ctx = ctx\<lparr>path := []\<rparr>"

definition arc :: "Canvas2D \<Rightarrow> real \<Rightarrow> real \<Rightarrow> real \<Rightarrow> real \<Rightarrow> real \<Rightarrow> Canvas2D" where
  "arc ctx x y r a0 a1 = ctx\<lparr>path := path ctx @ [Arc x y r a0 a1]\<rparr>"

definition moveTo :: "Canvas2D \<Rightarrow> real \<Rightarrow> real \<Rightarrow> Canvas2D" where
  "moveTo ctx x y = ctx\<lparr>path := path ctx @ [MoveTo x y]\<rparr>"

definition lineTo :: "Canvas2D \<Rightarrow> real \<Rightarrow> real \<Rightarrow> Canvas2D" where
  "lineTo ctx x y = ctx\<lparr>path := path ctx @ [LineTo x y]\<rparr>"

definition fill :: "Canvas2D \<Rightarrow> Canvas2D" where
  "fill ctx = ctx\<lparr>painted := painted ctx @ [Fill (fillStyle ctx) (path ctx)]\<rparr>"

definition stroke :: "Canvas2D \<Rightarrow> Canvas2D" where
  "stroke ctx =
     ctx\<lparr>painted := painted ctx @ [Stroke (strokeStyle ctx) (lineWidth ctx) (lineCap ctx) (path ctx)]\<rparr>"

text \<open>The inputs of one frame. \<open>analyser\<close> is the prop: \<open>None\<close> for \<open>null\<close>, otherwise the
  bytes that \<open>getByteFrequencyData\<close> writes into the fresh array of
  \<open>frequencyBinCount\<close> entries, so the bin count is the length of the snapshot.
  \<open>dateNow k\<close> is what the \<open>k\<close>-th call of \<open>Date.now()\<close> within the frame returns.\<close>

record frame_input =
  isPlaying :: bool
  analyser :: "byte list option"
  dateNow :: "nat \<Rightarrow> int"

definition frequencyBinCount :: "byte list \<Rightarrow> nat" where
  "frequencyBinCount a = length a"

text \<open>Lines 38 to 51: the sum over the lowest quarter of the bins and its average. The
  loop reads indices below \<open>bassCount\<close>, which are in range.\<close>

definition bassCount :: "byte list \<Rightarrow> nat" where
  "bassCount dataArray = frequencyBinCount dataArray div 4"

function bassSum :: "byte list \<Rightarrow> nat \<Rightarrow> nat \<Rightarrow> real \<Rightarrow> real" where
  "bassSum dataArray n i acc =
     (if i < n then bassSum dataArray n (Suc i) (acc + real (unat (dataArray ! i))) else acc)"
  by pat_completeness auto
termination
  by (relation "measure (\<lambda>(dataArray, n, i, acc). n - i)") auto

declare bassSum.simps [simp del]

definition average :: "byte list option \<Rightarrow> real" where
  "average an =
     (case an of
        None \<Rightarrow> 0
      | Some dataArray \<Rightarrow> bassSum dataArray (bassCount dataArray) 0 0 / real (bassCount dataArray))"

text \<open>With fewer than four bins \<open>bassCount\<close> is 0 and the JavaScript quotient is \<open>0 / 0\<close>,
  that is \<open>NaN\<close>; while playing it reaches \<open>createRadialGradient\<close>, which throws a
  \<open>TypeError\<close> on a non-finite argument.\<close>

definition averageIsNaN :: "byte list option \<Rightarrow> bool" where
  "averageIsNaN an = (case an of None \<Rightarrow> False | Some dataArray \<Rightarrow> bassCount dataArray = 0)"

text \<open>Lines 53 to 57.\<close>

definition baseRadius :: real where
  "baseRadius = 70"

definition pulseIntensity :: "frame_input \<Rightarrow> real" where
  "pulseIntensity inp =
     (if isPlaying inp then average (analyser inp) / 3
      else sin (real_of_int (dateNow inp 0) / 1500) * 5 + 5)"

definition visualRadius :: "frame_input \<Rightarrow> real" where
  "visualRadius inp = baseRadius + pulseIntensity inp"

text \<open>Lines 28 to 32: the gradient of the bars.\<close>

definition barGradient :: "real \<Rightarrow> real \<Rightarrow> paint" where
  "barGradient centerX centerY =
     addColorStop (addColorStop (addColorStop
       (createLinearGradient (centerX - 100) (centerY - 100) (centerX + 100) (centerY + 100))
       0 ''#a3e635'') (1 / 2) ''#10b981'') 1 ''#15803d''"

text \<open>Lines 59 to 74: the glow and the inner circle.\<close>

definition drawCore :: "real \<Rightarrow> real \<Rightarrow> real \<Rightarrow> Canvas2D \<Rightarrow> Canvas2D" where
  "drawCore centerX centerY vr ctx0 =
     (let glow = addColorStop (addColorStop
            (createRadialGradient centerX centerY (baseRadius * (2 / 10)) centerX centerY (vr * (3 / 2)))
            0 ''rgba(163, 230, 53, 0.3)'') 1 ''rgba(16, 185, 129, 0)'';
          ctx1 = ctx0\<lparr>fillStyle := glow\<rparr>;
          ctx2 = beginPath ctx1;
          ctx3 = arc ctx2 centerX centerY (vr * (3 / 2)) 0 (pi * 2);
          ctx4 = fill ctx3;
          ctx5 = beginPath ctx4;
          ctx6 = arc ctx5 centerX centerY (vr - 5) 0 (pi * 2);
          ctx7 = ctx6\<lparr>strokeStyle := Color ''rgba(255, 255, 255, 0.1)''\<rparr>;
          ctx8 = ctx7\<lparr>lineWidth := 2\<rparr>
      in stroke ctx8)"

text \<open>Lines 85 to 106: one spectrum bar. \<open>dataArray[i * step] || 0\<close> is 0 where the
  index is out of range.\<close>

definition barValue :: "byte list \<Rightarrow> nat \<Rightarrow> real" where
  "barValue dataArray k = (if k < length dataArray then real (unat (dataArray ! k)) else 0)"

definition barHeight :: "real \<Rightarrow> real" where
  "barHeight v = max 4 ((v / 255) * 100)"

definition barAngle :: "nat \<Rightarrow> nat \<Rightarrow> real" where
  "barAngle bars i = (real i / real bars) * pi * 2 - pi / 2"

definition drawBar ::
  "real \<Rightarrow> real \<Rightarrow> real \<Rightarrow> byte list \<Rightarrow> nat \<Rightarrow> nat \<Rightarrow> nat \<Rightarrow> Canvas2D \<Rightarrow> Canvas2D" where
  "drawBar centerX centerY vr dataArray bars step i ctx0 =
     (let v = barValue dataArray (i * step);
          bh = barHeight v;
          angle = barAngle bars i;
          x1 = centerX + cos angle * (vr + 10);
          y1 = centerY + sin angle * (vr + 10);
          x2 = centerX + cos angle * (vr + 10 + bh);
          y2 = centerY + sin angle * (vr + 10 + bh);
          ctx1 = beginPath ctx0;
          ctx2 = moveTo ctx1 x1 y1;
          ctx3 = lineTo ctx2 x2 y2
      in stroke ctx3)"

text \<open>Lines 77 to 84 and the loop: the branch taken with an analyser while playing.\<close>

definition drawBars :: "real \<Rightarrow> real \<Rightarrow> real \<Rightarrow> byte list \<Rightarrow> Canvas2D \<Rightarrow> Canvas2D" where
  "drawBars centerX centerY vr dataArray ctx0 =
     (let bars = 64;
          step = frequencyBinCount dataArray div bars;
          ctx1 = ctx0\<lparr>strokeStyle := barGradient centerX centerY\<rparr>;
          ctx2 = ctx1\<lparr>lineWidth := 4\<rparr>;
          ctx3 = ctx2\<lparr>lineCap := Round\<rparr>
      in fold (drawBar centerX centerY vr dataArray bars step) [0 ..< bars] ctx3)"

text \<open>Lines 108 to 119: the idle branch, eight particles on the pulse circle.\<close>

definition drawParticle :: "real \<Rightarrow> real \<Rightarrow> real \<Rightarrow> real \<Rightarrow> nat \<Rightarrow> Canvas2D \<Rightarrow> Canvas2D" where
  "drawParticle centerX centerY vr time i ctx0 =
     (let angle = time + (real i * (pi * 2) / 8);
          x = centerX + cos angle * vr;
          y = centerY + sin angle * vr;
          ctx1 = beginPath ctx0;
          ctx2 = arc ctx1 x y 3 0 (pi * 2)
      in fill ctx2)"

definition drawParticles :: "real \<Rightarrow> real \<Rightarrow> real \<Rightarrow> int \<Rightarrow> Canvas2D \<Rightarrow> Canvas2D" where
  "drawParticles centerX centerY vr now ctx0 =
     (let time = real_of_int now / 1000;
          ctx1 = ctx0\<lparr>fillStyle := Color ''rgba(16, 185, 129, 0.5)''\<rparr>
      in fold (drawParticle centerX centerY vr time) [0 ..< 8] ctx1)"

text \<open>One frame. The result is the error thrown, if any, and the context as the frame
  leaves it. The idle branch reads the clock a second time when the pulse has read it
  (not playing), and for the first time otherwise.\<close>

definition draw :: "frame_input \<Rightarrow> Canvas2D \<Rightarrow> js_error option \<times> Canvas2D" where
  "draw inp canvas =
     (let w = width canvas;
          h = height canvas;
          centerX = w / 2;
          centerY = h / 2;
          ctx0 = clearRect canvas 0 0 w h;
          vr = visualRadius inp
      in if isPlaying inp \<and> averageIsNaN (analyser inp)
         then (Some (TypeError ''non-finite''), ctx0)
         else
           let ctx1 = drawCore centerX centerY vr ctx0
           in (case analyser inp of
                 Some dataArray \<Rightarrow>
                   if isPlaying inp then (None, drawBars centerX centerY vr dataArray ctx1)
                   else (None, drawParticles centerX centerY vr (dateNow inp 1) ctx1)
               | None \<Rightarrow>
                   (None, drawParticles centerX centerY vr
                            (dateNow inp (if isPlaying inp then 0 else 1)) ctx1)))"

text \<open>A painted shape without the line cap it was stroked with.\<close>

fun withoutCap :: "shape \<Rightarrow> shape" where
  "withoutCap (Stroke p w cap sg) = Stroke p w Butt sg"
| "withoutCap s = s"

text \<open>Sample inputs: the context of the component's canvas (\<open>width={400}\<close>,
  \<open>height={400}\<close>) with the attributes a new 2D context has, a clock that returns the
  same millisecond at every call, and a frame over a silent snapshot of the 128 bins of
  the application's analyser (\<open>fftSize = 256\<close>).\<close>

definition freshContext :: Canvas2D where
  "freshContext = \<lparr>width = 400, height = 400, fillStyle = Color ''#000000'',
     strokeStyle = Color ''#000000'', lineWidth = 1, lineCap = Butt, path = [], painted = []\<rparr>"

definition frozenClock :: "int \<Rightarrow> nat \<Rightarrow> int" where
  "frozenClock t k = t"

definition silentFrame :: "bool \<Rightarrow> frame_input" where
  "silentFrame playing =
     \<lparr>isPlaying = playing, analyser = Some (replicate 128 0), dateNow = frozenClock 0\<rparr>"

section \<open>The speech service\<close>

text \<open>A JavaScript string is a sequence of UTF-16 code units; \<open>length\<close> counts them, as
  \<open>text.length\<close> does. \<open>utf16\<close> embeds the ASCII literals of the source.\<close>

type_synonym js_string = "16 word list"

definition utf16 :: "string \<Rightarrow> js_string" where
  "utf16 s = map (\<lambda>c. of_nat (of_char c)) s"

text \<open>\<open>String.prototype.trim\<close> removes the white space and line terminator code units
  of ECMAScript from both ends.\<close>

definition isWhiteSpace :: "16 word \<Rightarrow> bool" where
  "isWhiteSpace c \<longleftrightarrow>
     c \<in> set [0x0009, 0x000A, 0x000B, 0x000C, 0x000D, 0x0020, 0x00A0, 0x1680,
              0x2000, 0x2001, 0x2002, 0x2003, 0x2004, 0x2005, 0x2006, 0x2007, 0x2008, 0x2009,
              0x200A, 0x2028, 0x2029, 0x202F, 0x205F, 0x3000, 0xFEFF]"

definition js_trim :: "js_string \<Rightarrow> js_string" where
  "js_trim s = rev (dropWhile isWhiteSpace (rev (dropWhile isWhiteSpace s)))"

datatype VoiceName = Kore | Puck | Charon | Fenrir | Zephyr

text \<open>Modelled from the spec: \<open>decodeAudioData\<close> of \<open>services/audioUtils\<close>, which
  \<open>geminiService.ts\<close> imports and which is not among the sources. The spec says that
  the returned raw audio is decoded whole into the audio buffer that is played and
  encoded, and that the output is mono at 24 kHz: the buffer has the sample rate and the
  channel count the caller passes. The frame count and the samples written here follow
  the raw interleaved PCM16 layout (two bytes per sample, least significant first); the
  spec does not give the map from a 16-bit sample to a float, the parameter \<open>toFloat\<close>.
  The application calls it with one channel.\<close>

definition int16At :: "byte list \<Rightarrow> nat \<Rightarrow> 16 word" where
  "int16At data k =
     (if 2 * k + 1 < length data then word_cat (data ! (2 * k + 1)) (data ! (2 * k)) else 0)"

definition decodeAudioData :: "(16 word \<Rightarrow> real) \<Rightarrow> byte list \<Rightarrow> nat \<Rightarrow> nat \<Rightarrow> AudioBuffer" where
  "decodeAudioData toFloat data rate numChannels =
     (let frameCount = (length data div 2) div numChannels
      in \<lparr>numberOfChannels = numChannels, buf_length = frameCount, sampleRate = rate,
          getChannelData = (\<lambda>channel i. toFloat (int16At data (i * numChannels + channel)))\<rparr>)"

text \<open>What \<open>generateSpeech\<close> finds around it: the API key of the build, the answer of
  the remote model to a request (the promise rejects, or it resolves and
  \<open>response.candidates?.[0]?.content?.parts?.[0]?.inlineData?.data\<close> is \<open>undefined\<close> or a
  base64 string), \<open>decodeBase64\<close> of \<open>services/audioUtils\<close>, which is not among the
  sources and may throw on malformed input, and the two sample conversions left open
  above.\<close>

datatype api_outcome = Rejected js_error | Responded "js_string option"

record environment =
  API_KEY :: string
  generateContent :: "js_string \<Rightarrow> VoiceName \<Rightarrow> api_outcome"
  decodeBase64 :: "js_string \<Rightarrow> js_error + byte list"
  pcmToFloat :: "16 word \<Rightarrow> real"
  pcmScale :: "real \<Rightarrow> int"

text \<open>What the application does to the world outside its state, in order.\<close>

datatype effect =
    Alert string
  | ConsoleError js_error
  | GenerateContent js_string VoiceName
  | ResumeContext
  | CreateObjectURL nat
  | RevokeObjectURL nat
  | SourceStart nat
  | SourceStop nat

text \<open>\<open>generateSpeech\<close> (\<open>services/geminiService.ts\<close>): the effects in order, and the
  error thrown or the buffer returned. The missing key is checked before the \<open>try\<close>; an
  error inside it is logged and thrown again.\<close>

definition generateSpeech ::
  "environment \<Rightarrow> js_string \<Rightarrow> VoiceName \<Rightarrow> effect list \<times> (js_error + AudioBuffer)" where
  "generateSpeech env txt voice =
     (if API_KEY env = [] then ([], Inl (Error ''API Key is missing.''))
      else
        (case generateContent env txt voice of
           Rejected error \<Rightarrow> ([GenerateContent txt voice, ConsoleError error], Inl error)
         | Responded base64Audio \<Rightarrow>
             (case base64Audio of
                None \<Rightarrow>
                  ([GenerateContent txt voice,
                    ConsoleError (Error ''No audio data returned from Gemini.'')],
                   Inl (Error ''No audio data returned from Gemini.''))
              | Some b64 \<Rightarrow>
                  if b64 = [] then
                    ([GenerateContent txt voice,
                      ConsoleError (Error ''No audio data returned from Gemini.'')],
                     Inl (Error ''No audio data returned from Gemini.''))
                  else
                    (case decodeBase64 env b64 of
                       Inl error \<Rightarrow> ([GenerateContent txt voice, ConsoleError error], Inl error)
                     | Inr rawBytes \<Rightarrow>
                         ([GenerateContent txt voice],
                          Inr (decodeAudioData (pcmToFloat env) rawBytes 24000 1))))))"

section \<open>The application\<close>

definition MAX_CHARS :: nat where
  "MAX_CHARS = 5000"

definition DEFAULT_TEXT :: js_string where
  "DEFAULT_TEXT = utf16 (''Welcome to FastX Voice Generator. Experience the next generation''
     @ '' of AI audio synthesis. Select a premium voice model, input your script, and''
     @ '' generate studio-quality narration instantly.'')"

text \<open>\<open>VoicePersona\<close>; its field \<open>id\<close> is \<open>voice_id\<close> here.\<close>

record VoicePersona =
  voice_id :: string
  apiVoice :: VoiceName
  displayName :: string
  tags :: string

definition VOICE_OPTIONS :: "VoicePersona list" where
  "VOICE_OPTIONS =
     [\<lparr>voice_id = ''v_jason'', apiVoice = Puck, displayName = ''Jason'', tags = ''Deep // Authoritative''\<rparr>,
      \<lparr>voice_id = ''v_mike'', apiVoice = Charon, displayName = ''Mike'', tags = ''Deep // Narrative''\<rparr>,
      \<lparr>voice_id = ''v_henry'', apiVoice = Fenrir, displayName = ''Henry'', tags = ''Intense // Strong''\<rparr>,
      \<lparr>voice_id = ''v_jerry'', apiVoice = Puck, displayName = ''Jerry'', tags = ''Energetic // Clear''\<rparr>,
      \<lparr>voice_id = ''v_thomas'', apiVoice = Charon, displayName = ''Thomas'', tags = ''Low // Resonant''\<rparr>,
      \<lparr>voice_id = ''v_james'', apiVoice = Fenrir, displayName = ''James'', tags = ''Bold // Direct''\<rparr>]"

datatype context_state = Suspended | Running | Closed

record AudioContext =
  ctx_state :: context_state
  ctx_sampleRate :: nat

record AnalyserNode =
  fftSize :: nat

text \<open>The two callbacks the application passes to \<open>playAudio\<close>.\<close>

datatype on_ended = SetPreviewVoiceIdNull | SetIsPlayingFalse

text \<open>The state of \<open>App\<close>: the seven \<open>useState\<close> cells (\<open>text\<close> and \<open>isPlaying\<close> are
  \<open>text_st\<close> and \<open>isPlaying_st\<close> here), the three refs, and the part of the browser the
  handlers act on: the source nodes created so far with their buffer and callback, the
  nodes that are sounding (started and neither stopped nor ended), the nodes whose
  \<open>ended\<close> event is still to be delivered, the live object URLs with their blobs, and
  the trace of effects. Source nodes and object URLs are numbered as they are created.\<close>

record AppState =
  text_st :: js_string
  selectedVoiceId :: string
  isLoading :: bool
  isPlaying_st :: bool
  previewVoiceId :: "string option"
  audioBuffer :: "AudioBuffer option"
  downloadUrl :: "nat option"
  audioContextRef :: "AudioContext option"
  sourceNodeRef :: "nat option"
  analyserRef :: "AnalyserNode option"
  sourceNodes :: "(AudioBuffer \<times> on_ended option) list"
  sounding :: "nat set"
  pendingEnded :: "nat set"
  objectUrls :: "(byte list) option list"
  trace :: "effect list"

definition initialState :: AppState where
  "initialState =
     \<lparr>text_st = DEFAULT_TEXT, selectedVoiceId = voice_id (VOICE_OPTIONS ! 1), isLoading = False,
      isPlaying_st = False, previewVoiceId = None, audioBuffer = None, downloadUrl = None,
      audioContextRef = None, sourceNodeRef = None, analyserRef = None,
      sourceNodes = [], sounding = {}, pendingEnded = {}, objectUrls = [], trace = []\<rparr>"

text \<open>Lines 43 to 47: the mount effect creates the context at 24 kHz and the analyser.\<close>

definition mount :: "context_state \<Rightarrow> AppState \<Rightarrow> AppState" where
  "mount st s =
     s\<lparr>audioContextRef := Some \<lparr>ctx_state = st, ctx_sampleRate = 24000\<rparr>,
       analyserRef := Some \<lparr>fftSize = 256\<rparr>\<rparr>"

definition ensureAudioContext :: "AppState \<Rightarrow> AppState" where
  "ensureAudioContext s =
     (case audioContextRef s of
        None \<Rightarrow> s
      | Some ctx \<Rightarrow>
          if ctx_state ctx = Suspended
          then s\<lparr>audioContextRef := Some (ctx\<lparr>ctx_state := Running\<rparr>),
                 trace := trace s @ [ResumeContext]\<rparr>
          else s)"

text \<open>\<open>source.stop()\<close>: the node stops sounding; its \<open>ended\<close> event stays pending.\<close>

definition stopSource :: "nat \<Rightarrow> AppState \<Rightarrow> AppState" where
  "stopSource n s = s\<lparr>sounding := sounding s - {n}, trace := trace s @ [SourceStop n]\<rparr>"

definition stopAudio :: "AppState \<Rightarrow> AppState" where
  "stopAudio s =
     (let s1 = (case sourceNodeRef s of
                  Some n \<Rightarrow> (stopSource n s)\<lparr>sourceNodeRef := None\<rparr>
                | None \<Rightarrow> s);
          s2 = s1\<lparr>isPlaying_st := False\<rparr>
      in s2\<lparr>previewVoiceId := None\<rparr>)"

definition playAudio :: "AudioBuffer \<Rightarrow> on_ended option \<Rightarrow> AppState \<Rightarrow> AppState" where
  "playAudio buffer onEnded s =
     (if audioContextRef s = None \<or> analyserRef s = None then s
      else
        let s1 = (case sourceNodeRef s of Some n \<Rightarrow> stopSource n s | None \<Rightarrow> s);
            source = length (sourceNodes s1);
            s2 = s1\<lparr>sourceNodes := sourceNodes s1 @ [(buffer, onEnded)]\<rparr>;
            s3 = s2\<lparr>sounding := insert source (sounding s2),
                    pendingEnded := insert source (pendingEnded s2),
                    trace := trace s2 @ [SourceStart source]\<rparr>
        in s3\<lparr>sourceNodeRef := Some source\<rparr>)"

text \<open>The \<open>ended\<close> event of a node, after it has played to its end or was stopped: the
  node is silent and its callback runs.\<close>

definition sourceEnded :: "nat \<Rightarrow> AppState \<Rightarrow> AppState" where
  "sourceEnded n s =
     (if n \<in> pendingEnded s \<and> n < length (sourceNodes s) then
        let s1 = s\<lparr>sounding := sounding s - {n}, pendingEnded := pendingEnded s - {n}\<rparr>
        in (case snd (sourceNodes s ! n) of
              None \<Rightarrow> s1
            | Some SetPreviewVoiceIdNull \<Rightarrow> s1\<lparr>previewVoiceId := None\<rparr>
            | Some SetIsPlayingFalse \<Rightarrow> s1\<lparr>isPlaying_st := False\<rparr>)
      else s)"

definition createObjectURL :: "byte list \<Rightarrow> AppState \<Rightarrow> nat \<times> AppState" where
  "createObjectURL blob s =
     (let url = length (objectUrls s)
      in (url, s\<lparr>objectUrls := objectUrls s @ [Some blob], trace := trace s @ [CreateObjectURL url]\<rparr>))"

definition revokeObjectURL :: "nat \<Rightarrow> AppState \<Rightarrow> AppState" where
  "revokeObjectURL url s =
     s\<lparr>objectUrls := (if url < length (objectUrls s) then (objectUrls s)[url := None]
                       else objectUrls s),
       trace := trace s @ [RevokeObjectURL url]\<rparr>"

text \<open>The file behind an object URL, while it is live.\<close>

definition blobAt :: "AppState \<Rightarrow> nat \<Rightarrow> byte list option" where
  "blobAt s url = (if url < length (objectUrls s) then objectUrls s ! url else None)"

text \<open>\<open>handlePreview\<close>, lines 62 to 79, run to its end. \<open>previewVoiceId\<close> is truthy when it
  is a non-empty string.\<close>

definition handlePreview :: "environment \<Rightarrow> VoicePersona \<Rightarrow> AppState \<Rightarrow> AppState" where
  "handlePreview env voice s =
     (if audioContextRef s = None
         \<or> (case previewVoiceId s of Some v \<Rightarrow> v \<noteq> [] | None \<Rightarrow> False) then s
      else
        let s1 = ensureAudioContext s;
            s2 = s1\<lparr>previewVoiceId := Some (voice_id voice)\<rparr>;
            s3 = stopAudio s2;
            previewText = utf16 (''Hello, I am '' @ displayName voice @ ''.'');
            (effs, r) = generateSpeech env previewText (apiVoice voice);
            s4 = s3\<lparr>trace := trace s3 @ effs\<rparr>
        in (case r of
              Inr buffer \<Rightarrow> playAudio buffer (Some SetPreviewVoiceIdNull) s4
            | Inl err \<Rightarrow> (s4\<lparr>trace := trace s4 @ [ConsoleError err]\<rparr>)\<lparr>previewVoiceId := None\<rparr>))"

text \<open>\<open>handleGenerate\<close>, lines 81 to 114, run to its end.\<close>

definition handleGenerate :: "environment \<Rightarrow> AppState \<Rightarrow> AppState" where
  "handleGenerate env s =
     (if js_trim (text_st s) = [] \<or> audioContextRef s = None then s
      else if length (text_st s) > MAX_CHARS then
        s\<lparr>trace := trace s @ [Alert ''Character limit exceeded. Please reduce to 5000 characters.'']\<rparr>
      else
        (case find (\<lambda>v. voice_id v = selectedVoiceId s) VOICE_OPTIONS of
           None \<Rightarrow> s
         | Some selectedOption \<Rightarrow>
             let s1 = ensureAudioContext s;
                 s2 = s1\<lparr>isLoading := True\<rparr>;
                 s3 = s2\<lparr>audioBuffer := None\<rparr>;
                 s4 = (case downloadUrl s of Some url \<Rightarrow> revokeObjectURL url s3 | None \<Rightarrow> s3);
                 s5 = s4\<lparr>downloadUrl := None\<rparr>;
                 s6 = stopAudio s5;
                 (effs, r) = generateSpeech env (text_st s) (apiVoice selectedOption);
                 s7 = s6\<lparr>trace := trace s6 @ effs\<rparr>;
                 s8 = (case r of
                         Inr buffer \<Rightarrow>
                           let t1 = s7\<lparr>audioBuffer := Some buffer\<rparr>;
                               wavBlob = audioBufferToWav (pcmScale env) buffer;
                               (url, t2) = createObjectURL wavBlob t1;
                               t3 = t2\<lparr>downloadUrl := Some url\<rparr>;
                               t4 = playAudio buffer (Some SetIsPlayingFalse) t3
                           in t4\<lparr>isPlaying_st := True\<rparr>
                       | Inl error \<Rightarrow>
                           s7\<lparr>trace := trace s7 @
                                [ConsoleError error, Alert ''Generation failed. Please try again.'']\<rparr>)
             in s8\<lparr>isLoading := False\<rparr>))"

definition handleClear :: "AppState \<Rightarrow> AppState" where
  "handleClear s =
     (let s1 = s\<lparr>text_st := []\<rparr>;
          s2 = s1\<lparr>audioBuffer := None\<rparr>;
          s3 = s2\<lparr>downloadUrl := None\<rparr>
      in stopAudio s3)"

text \<open>The alerts among the effects.\<close>

fun alerts :: "effect list \<Rightarrow> string list" where
  "alerts [] = []"
| "alerts (Alert msg # es) = msg # alerts es"
| "alerts (e # es) = alerts es"

text \<open>The states the application reaches from its mounted initial state: the user edits
  the text, selects a voice, clicks a preview button, the generate button or the clear
  button, and a started source delivers its \<open>ended\<close> event. The handlers wait for the
  remote call, so other handlers may run in between; the two operations on the source
  node are therefore steps of their own as well.\<close>

inductive reachable :: "AppState \<Rightarrow> bool" where
  mounted: "reachable (mount st initialState)"
| setText: "reachable s \<Longrightarrow> reachable (s\<lparr>text_st := t\<rparr>)"
| setSelectedVoiceId: "reachable s \<Longrightarrow> v \<in> set VOICE_OPTIONS \<Longrightarrow>
    reachable (s\<lparr>selectedVoiceId := voice_id v\<rparr>)"
| preview: "reachable s \<Longrightarrow> v \<in> set VOICE_OPTIONS \<Longrightarrow> reachable (handlePreview env v s)"
| generate: "reachable s \<Longrightarrow> reachable (handleGenerate env s)"
| clear: "reachable s \<Longrightarrow> reachable (handleClear s)"
| ended: "reachable s \<Longrightarrow> reachable (sourceEnded n s)"
| stop: "reachable s \<Longrightarrow> reachable (stopAudio s)"
| play: "reachable s \<Longrightarrow> reachable (playAudio buffer onEnded s)"

text \<open>Sample environments: a build with a key whose remote model answers with four raw
  bytes, and a build without a key.\<close>

definition sampleReply :: "js_string \<Rightarrow> VoiceName \<Rightarrow> api_outcome" where
  "sampleReply txt voice = Responded (Some (utf16 ''AAD/fw==''))"

definition sampleDecode :: "js_string \<Rightarrow> js_error + byte list" where
  "sampleDecode b64 = Inr [0x00, 0x00, 0xFF, 0x7F]"

definition sampleToFloat :: "16 word \<Rightarrow> real" where
  "sampleToFloat w = real_of_int (sint w) / 32768"

definition sampleScale :: "real \<Rightarrow> int" where
  "sampleScale x = \<lfloor>x * 32767\<rfloor>"

definition sampleEnv :: environment where
  "sampleEnv = \<lparr>API_KEY = ''key'', generateContent = sampleReply, decodeBase64 = sampleDecode,
     pcmToFloat = sampleToFloat, pcmScale = sampleScale\<rparr>"

definition noKeyEnv :: environment where
  "noKeyEnv = sampleEnv\<lparr>API_KEY := []\<rparr>"

text \<open>Builds with a key whose remote call fails, and whose response holds no audio.\<close>

definition sampleReject :: "js_string \<Rightarrow> VoiceName \<Rightarrow> api_outcome" where
  "sampleReject txt voice = Rejected (Error ''503 Service Unavailable'')"

definition sampleNoAudio :: "js_string \<Rightarrow> VoiceName \<Rightarrow> api_outcome" where
  "sampleNoAudio txt voice = Responded None"

definition rejectingEnv :: environment where
  "rejectingEnv = sampleEnv\<lparr>generateContent := sampleReject\<rparr>"

definition noAudioEnv :: environment where
  "noAudioEnv = sampleEnv\<lparr>generateContent := sampleNoAudio\<rparr>"

text \<open>Sample states: the mounted application with a short text, and the same after a
  generation that succeeded.\<close>

definition shortTextState :: AppState where
  "shortTextState = (mount Running initialState)\<lparr>text_st := utf16 ''Hi''\<rparr>"

definition generatedState :: AppState where
  "generatedState = handleGenerate sampleEnv shortTextState"

text \<open>The invariants of the reachable states: a sounding node is the one
  \<open>sourceNodeRef\<close> holds; the download URL is live and names the encoding of the current
  audio buffer, which is mono at 24 kHz.\<close>

definition soundingIsCurrent :: "AppState \<Rightarrow> bool" where
  "soundingIsCurrent s \<longleftrightarrow> (\<forall>n \<in> sounding s. sourceNodeRef s = Some n)"

definition downloadIsEncodedBuffer :: "AppState \<Rightarrow> bool" where
  "downloadIsEncodedBuffer s \<longleftrightarrow>
     (\<forall>u. downloadUrl s = Some u \<longrightarrow>
        (\<exists>scale b. blobAt s u = Some (audioBufferToWav scale b) \<and> audioBuffer s = Some b
           \<and> numberOfChannels b = 1 \<and> sampleRate b = 24000))"

text \<open>Texts of 5001 code units: the letter H, and the space.\<close>

definition longTextState :: AppState where
  "longTextState = (mount Running initialState)\<lparr>text_st := replicate 5001 0x48\<rparr>"

definition blankTextState :: AppState where
  "blankTextState = (mount Running initialState)\<lparr>text_st := replicate 5001 0x20\<rparr>"

section \<open>Properties of the WAV encoder\<close>

lemma length_u16le: "length (u16le w) = 2"
  by (simp add: u16le_def)

lemma length_u32le: "length (u32le w) = 4"
  by (simp add: u32le_def)

lemma length_interleave: "length (interleave b) = buf_length b * numberOfChannels b"
  by (simp add: interleave_def length_concat comp_def sum_list_triv)

lemma length_wavData: "length (wavData scale b) = buf_length b * numberOfChannels b * 2"
  by (simp add: wavData_def length_concat comp_def length_u16le sum_list_triv length_interleave)

lemma length_wavHeader: "length (wavHeader b) = 44"
  by (simp add: wavHeader_def Let_def ascii_def length_u16le length_u32le)

lemma wavHeader_fields:
  "field 0 4 (wavHeader b) = ascii ''RIFF''"
  "field 8 4 (wavHeader b) = ascii ''WAVE''"
  "field 12 4 (wavHeader b) = ascii ''fmt ''"
  "field 20 2 (wavHeader b) = u16le 1"
  "field 22 2 (wavHeader b) = u16le (of_nat (numberOfChannels b))"
  "field 24 4 (wavHeader b) = u32le (of_nat (sampleRate b))"
  "field 34 2 (wavHeader b) = u16le 16"
  "field 36 4 (wavHeader b) = ascii ''data''"
  by (simp_all add: wavHeader_def Let_def field_def ascii_def u16le_def u32le_def)

text \<open>Claim C1. For a buffer of \<open>s\<close> frames and \<open>c\<close> channels the encoder emits exactly
  \<open>44 + s * c * 2\<close> bytes: the 44-byte header, whose fields hold the RIFF and WAVE tags,
  format tag 1, the buffer's channel count and sample rate and a depth of 16 bits, then
  one 16-bit little-endian value per interleaved sample, and nothing after them.\<close>

theorem audioBufferToWav_length:
  "length (audioBufferToWav scale b) = 44 + buf_length b * numberOfChannels b * 2
   \<and> take 44 (audioBufferToWav scale b) = wavHeader b
   \<and> field 0 4 (wavHeader b) = ascii ''RIFF''
   \<and> field 8 4 (wavHeader b) = ascii ''WAVE''
   \<and> field 20 2 (wavHeader b) = u16le 1
   \<and> field 22 2 (wavHeader b) = u16le (of_nat (numberOfChannels b))
   \<and> field 24 4 (wavHeader b) = u32le (of_nat (sampleRate b))
   \<and> field 34 2 (wavHeader b) = u16le 16
   \<and> drop 44 (audioBufferToWav scale b)
       = concat (map (\<lambda>x. u16le (floatTo16BitPCM scale x)) (interleave b))
   \<and> length (interleave b) = buf_length b * numberOfChannels b"
proof -
  have len: "length (audioBufferToWav scale b) = 44 + buf_length b * numberOfChannels b * 2"
    by (simp add: audioBufferToWav_def length_wavHeader length_wavData)
  have hd: "take 44 (audioBufferToWav scale b) = wavHeader b"
    by (simp add: audioBufferToWav_def length_wavHeader)
  have tl: "drop 44 (audioBufferToWav scale b)
      = concat (map (\<lambda>x. u16le (floatTo16BitPCM scale x)) (interleave b))"
    by (simp add: audioBufferToWav_def length_wavHeader wavData_def)
  from len hd tl show ?thesis
    by (simp only: wavHeader_fields length_interleave simp_thms)
qed

section \<open>Properties of the visualizer\<close>

subsection \<open>The bass average\<close>

lemma bassSum_sum:
  "bassSum d n i acc = acc + (\<Sum>k = i..<n. real (unat (d ! k)))"
proof (induction d n i acc rule: bassSum.induct)
  case (1 d n i acc)
  have unfold: "bassSum d n i acc =
      (if i < n then bassSum d n (Suc i) (acc + real (unat (d ! i))) else acc)"
    by (rule bassSum.simps)
  show ?case
  proof (cases "i < n")
    case False
    with unfold show ?thesis by simp
  next
    case True
    then have "bassSum d n i acc = acc + real (unat (d ! i)) + (\<Sum>k = Suc i..<n. real (unat (d ! k)))"
      using unfold "1.IH" by simp
    also have "\<dots> = acc + (\<Sum>k = i..<n. real (unat (d ! k)))"
      using True by (simp add: sum.atLeast_Suc_lessThan)
    finally show ?thesis .
  qed
qed

text \<open>Claim C4. For a snapshot of \<open>n\<close> bytes the bass proxy of a frame is the sum of the
  entries at indices \<open>0 .. n div 4 - 1\<close> divided by \<open>n div 4\<close>. An analyser has at least
  16 bins; the quotient needs \<open>n div 4\<close> to be positive, that is \<open>4 \<le> n\<close>.\<close>

theorem average_is_bass_mean:
  "4 \<le> length d \<Longrightarrow>
     bassCount d = length d div 4
     \<and> 0 < bassCount d
     \<and> average (Some d) = (\<Sum>k<length d div 4. real (unat (d ! k))) / real (length d div 4)"
  by (simp add: average_def bassCount_def frequencyBinCount_def bassSum_sum lessThan_atLeast0
      div_greater_zero_iff)

text \<open>The witness: a snapshot of 16 bins, the least an analyser has.\<close>

theorem average_is_bass_mean_witness:
  "4 \<le> length [4, 8, 12, 16, 20, 24, 28, 32, 36, 40, 44, 48, 52, 56, 60, 64 :: byte]
   \<and> bassCount [4, 8, 12, 16, 20, 24, 28, 32, 36, 40, 44, 48, 52, 56, 60, 64] = 4
   \<and> average (Some [4, 8, 12, 16, 20, 24, 28, 32, 36, 40, 44, 48, 52, 56, 60, 64]) = 10"
proof -
  let ?d = "[4, 8, 12, 16, 20, 24, 28, 32, 36, 40, 44, 48, 52, 56, 60, 64 :: byte]"
  have h: "4 \<le> length ?d" by simp
  have n: "length ?d div 4 = Suc (Suc (Suc (Suc 0)))" by simp
  from average_is_bass_mean [OF h]
  have "bassCount ?d = length ?d div 4"
    and "average (Some ?d) = (\<Sum>k<length ?d div 4. real (unat (?d ! k))) / real (length ?d div 4)"
    by blast+
  moreover have "(\<Sum>k<length ?d div 4. real (unat (?d ! k))) / real (length ?d div 4) = 10"
    unfolding n by (simp add: lessThan_Suc)
  ultimately show ?thesis by simp
qed

subsection \<open>The pulse radius\<close>

text \<open>Claim C5. The pulse radius is 70 plus the bass average divided by 3 while playing
  (the average is 0 without an analyser), and 70 plus \<open>sin (now / 1500) * 5 + 5\<close>, a
  value between 0 and 10, while idle; while playing it is the same whatever the clock
  returns.\<close>

theorem visualRadius_pulse:
  "visualRadius (inp\<lparr>isPlaying := True\<rparr>) = 70 + average (analyser inp) / 3
   \<and> visualRadius (inp\<lparr>isPlaying := False\<rparr>)
       = 70 + (sin (real_of_int (dateNow inp 0) / 1500) * 5 + 5)
   \<and> 0 \<le> sin (real_of_int (dateNow inp 0) / 1500) * 5 + 5
   \<and> sin (real_of_int (dateNow inp 0) / 1500) * 5 + 5 \<le> 10
   \<and> visualRadius (inp\<lparr>isPlaying := True, dateNow := clock\<rparr>)
       = visualRadius (inp\<lparr>isPlaying := True\<rparr>)
   \<and> average None = 0"
proof -
  let ?s = "sin (real_of_int (dateNow inp 0) / 1500)"
  have lo: "- 1 \<le> ?s"
    by (rule sin_ge_minus_one)
  have hi: "?s \<le> 1"
    by (rule sin_le_one)
  have b0: "0 \<le> ?s * 5 + 5"
    using lo by linarith
  have b1: "?s * 5 + 5 \<le> 10"
    using hi by linarith
  have p: "visualRadius (inp\<lparr>isPlaying := True\<rparr>) = 70 + average (analyser inp) / 3"
    by (simp add: visualRadius_def pulseIntensity_def baseRadius_def)
  have i: "visualRadius (inp\<lparr>isPlaying := False\<rparr>) = 70 + (?s * 5 + 5)"
    by (simp add: visualRadius_def pulseIntensity_def baseRadius_def)
  have c: "visualRadius (inp\<lparr>isPlaying := True, dateNow := clock\<rparr>)
       = visualRadius (inp\<lparr>isPlaying := True\<rparr>)"
    by (simp add: visualRadius_def pulseIntensity_def)
  have n: "average None = 0"
    by (simp add: average_def)
  from p i b0 b1 c n show ?thesis
    by blast
qed

subsection \<open>What a frame paints\<close>

lemma painted_fold_drawBar:
  "painted (fold (drawBar cx cy vr d bars step) js ctx) =
     painted ctx @
       map (\<lambda>i. Stroke (strokeStyle ctx) (lineWidth ctx) (lineCap ctx)
              [MoveTo (cx + cos (barAngle bars i) * (vr + 10))
                      (cy + sin (barAngle bars i) * (vr + 10)),
               LineTo (cx + cos (barAngle bars i) * (vr + 10 + barHeight (barValue d (i * step))))
                      (cy + sin (barAngle bars i) * (vr + 10 + barHeight (barValue d (i * step))))]) js"
proof (induction js arbitrary: ctx)
  case Nil
  show ?case by simp
next
  case (Cons j js)
  show ?case
    by (simp add: Cons.IH) (simp add: drawBar_def Let_def stroke_def lineTo_def moveTo_def beginPath_def)
qed

lemma painted_fold_drawParticle:
  "painted (fold (drawParticle cx cy vr t) js ctx) =
     painted ctx @
       map (\<lambda>i. Fill (fillStyle ctx)
              [Arc (cx + cos (t + (real i * (pi * 2) / 8)) * vr)
                   (cy + sin (t + (real i * (pi * 2) / 8)) * vr) 3 0 (pi * 2)]) js"
proof (induction js arbitrary: ctx)
  case Nil
  show ?case by simp
next
  case (Cons j js)
  show ?case
    by (simp add: Cons.IH) (simp add: drawParticle_def Let_def fill_def arc_def beginPath_def)
qed

lemma size_fold_drawBar:
  "width (fold (drawBar cx cy vr d bars step) js ctx) = width ctx
   \<and> height (fold (drawBar cx cy vr d bars step) js ctx) = height ctx"
  by (induction js arbitrary: ctx)
     (simp_all add: drawBar_def Let_def stroke_def lineTo_def moveTo_def beginPath_def)

lemma size_fold_drawParticle:
  "width (fold (drawParticle cx cy vr t) js ctx) = width ctx
   \<and> height (fold (drawParticle cx cy vr t) js ctx) = height ctx"
  by (induction js arbitrary: ctx)
     (simp_all add: drawParticle_def Let_def fill_def arc_def beginPath_def)

lemma painted_clearRect_all: "painted (clearRect c 0 0 (width c) (height c)) = []"
  by (simp add: clearRect_def)

lemma attrs_clearRect:
  "width (clearRect c x y w h) = width c"
  "height (clearRect c x y w h) = height c"
  "lineCap (clearRect c x y w h) = lineCap c"
  by (simp_all add: clearRect_def)

lemma painted_drawCore:
  "painted (drawCore cx cy vr ctx) =
     painted ctx @
     [Fill (RadialGradient cx cy (baseRadius * (2 / 10)) cx cy (vr * (3 / 2))
              [(0, ''rgba(163, 230, 53, 0.3)''), (1, ''rgba(16, 185, 129, 0)'')])
           [Arc cx cy (vr * (3 / 2)) 0 (pi * 2)],
      Stroke (Color ''rgba(255, 255, 255, 0.1)'') 2 (lineCap ctx) [Arc cx cy (vr - 5) 0 (pi * 2)]]"
  by (simp add: drawCore_def Let_def stroke_def fill_def arc_def beginPath_def
      createRadialGradient_def)

lemma lineCap_drawCore: "lineCap (drawCore cx cy vr ctx) = lineCap ctx"
  by (simp add: drawCore_def Let_def stroke_def fill_def arc_def beginPath_def)

lemma size_drawCore:
  "width (drawCore cx cy vr ctx) = width ctx \<and> height (drawCore cx cy vr ctx) = height ctx"
  by (simp add: drawCore_def Let_def stroke_def fill_def arc_def beginPath_def)

lemma painted_drawBars:
  "painted (drawBars cx cy vr d ctx) =
     painted ctx @
       map (\<lambda>i. Stroke (barGradient cx cy) 4 Round
              [MoveTo (cx + cos (barAngle 64 i) * (vr + 10))
                      (cy + sin (barAngle 64 i) * (vr + 10)),
               LineTo (cx + cos (barAngle 64 i) * (vr + 10 + barHeight (barValue d (i * (length d div 64)))))
                      (cy + sin (barAngle 64 i) * (vr + 10 + barHeight (barValue d (i * (length d div 64)))))])
           [0 ..< 64]"
  by (simp only: drawBars_def Let_def painted_fold_drawBar frequencyBinCount_def)
     (simp del: upt_Suc)

lemma painted_drawParticles:
  "painted (drawParticles cx cy vr now ctx) =
     painted ctx @
       map (\<lambda>i. Fill (Color ''rgba(16, 185, 129, 0.5)'')
              [Arc (cx + cos (real_of_int now / 1000 + (real i * (pi * 2) / 8)) * vr)
                   (cy + sin (real_of_int now / 1000 + (real i * (pi * 2) / 8)) * vr) 3 0 (pi * 2)])
           [0 ..< 8]"
  by (simp only: drawParticles_def Let_def painted_fold_drawParticle)
     (simp del: upt_Suc)

lemmas painted_simps = painted_drawBars painted_drawParticles painted_drawCore
  painted_clearRect_all lineCap_drawCore attrs_clearRect

lemma size_draw:
  "width (snd (draw inp c)) = width c \<and> height (snd (draw inp c)) = height c"
  by (simp add: draw_def Let_def drawBars_def drawParticles_def size_fold_drawBar
      size_fold_drawParticle size_drawCore attrs_clearRect split: option.splits del: upt_Suc)

lemma painted_draw_playing:
  assumes "isPlaying inp" and "analyser inp = Some d" and "4 \<le> length d"
  shows "fst (draw inp c) = None"
    and "painted (snd (draw inp c)) =
     [Fill (RadialGradient (width c / 2) (height c / 2) (baseRadius * (2 / 10))
              (width c / 2) (height c / 2) (visualRadius inp * (3 / 2))
              [(0, ''rgba(163, 230, 53, 0.3)''), (1, ''rgba(16, 185, 129, 0)'')])
           [Arc (width c / 2) (height c / 2) (visualRadius inp * (3 / 2)) 0 (pi * 2)],
      Stroke (Color ''rgba(255, 255, 255, 0.1)'') 2 (lineCap c)
           [Arc (width c / 2) (height c / 2) (visualRadius inp - 5) 0 (pi * 2)]]
     @ map (\<lambda>i. Stroke (barGradient (width c / 2) (height c / 2)) 4 Round
              [MoveTo (width c / 2 + cos (barAngle 64 i) * (visualRadius inp + 10))
                      (height c / 2 + sin (barAngle 64 i) * (visualRadius inp + 10)),
               LineTo (width c / 2 + cos (barAngle 64 i)
                         * (visualRadius inp + 10 + barHeight (barValue d (i * (length d div 64)))))
                      (height c / 2 + sin (barAngle 64 i)
                         * (visualRadius inp + 10 + barHeight (barValue d (i * (length d div 64)))))])
           [0 ..< 64]"
proof -
  have nn: "\<not> averageIsNaN (analyser inp)"
    using assms by (simp add: averageIsNaN_def bassCount_def frequencyBinCount_def)
  show "fst (draw inp c) = None"
    using assms nn by (simp add: draw_def Let_def)
  show "painted (snd (draw inp c)) =
     [Fill (RadialGradient (width c / 2) (height c / 2) (baseRadius * (2 / 10))
              (width c / 2) (height c / 2) (visualRadius inp * (3 / 2))
              [(0, ''rgba(163, 230, 53, 0.3)''), (1, ''rgba(16, 185, 129, 0)'')])
           [Arc (width c / 2) (height c / 2) (visualRadius inp * (3 / 2)) 0 (pi * 2)],
      Stroke (Color ''rgba(255, 255, 255, 0.1)'') 2 (lineCap c)
           [Arc (width c / 2) (height c / 2) (visualRadius inp - 5) 0 (pi * 2)]]
     @ map (\<lambda>i. Stroke (barGradient (width c / 2) (height c / 2)) 4 Round
              [MoveTo (width c / 2 + cos (barAngle 64 i) * (visualRadius inp + 10))
                      (height c / 2 + sin (barAngle 64 i) * (visualRadius inp + 10)),
               LineTo (width c / 2 + cos (barAngle 64 i)
                         * (visualRadius inp + 10 + barHeight (barValue d (i * (length d div 64)))))
                      (height c / 2 + sin (barAngle 64 i)
                         * (visualRadius inp + 10 + barHeight (barValue d (i * (length d div 64)))))])
           [0 ..< 64]"
    using assms nn by (simp add: draw_def Let_def painted_simps del: upt_Suc)
qed

lemma length_painted_idle:
  "\<not> isPlaying inp \<Longrightarrow> length (painted (snd (draw inp c))) = 10"
  by (simp add: draw_def Let_def painted_simps split: option.splits del: upt_Suc)

lemma bar_length:
  "0 \<le> len \<Longrightarrow>
   sqrt (((cx + cos a * (r + len)) - (cx + cos a * r))\<^sup>2
       + ((cy + sin a * (r + len)) - (cy + sin a * r))\<^sup>2) = len"
proof -
  assume l: "0 \<le> len"
  have dx: "(cx + cos a * (r + len)) - (cx + cos a * r) = cos a * len"
    by (simp add: algebra_simps)
  have dy: "(cy + sin a * (r + len)) - (cy + sin a * r) = sin a * len"
    by (simp add: algebra_simps)
  have "(cos a * len)\<^sup>2 + (sin a * len)\<^sup>2 = ((cos a)\<^sup>2 + (sin a)\<^sup>2) * len\<^sup>2"
    by (simp only: power_mult_distrib distrib_right)
  also have "\<dots> = len\<^sup>2"
    by (simp only: sin_cos_squared_add2 mult_1)
  finally show ?thesis
    using l by (simp only: dx dy real_sqrt_abs abs_of_nonneg)
qed

lemma average_silence: "average (Some (replicate 128 0)) = 0"
  by (simp add: average_def bassSum_sum bassCount_def frequencyBinCount_def)

lemma visualRadius_silentFrame: "visualRadius (silentFrame True) = 70"
  by (simp add: visualRadius_def pulseIntensity_def silentFrame_def average_silence baseRadius_def)

lemma silentFrame_playing:
  "isPlaying (silentFrame True)"
  "analyser (silentFrame True) = Some (replicate 128 0)"
  "4 \<le> length (replicate 128 (0 :: byte))"
  by (simp_all add: silentFrame_def)

subsection \<open>The spectrum bars\<close>

text \<open>Claim C3, as the code has it. With an analyser attached and audio playing, a frame
  paints the glow and the inner circle and then exactly 64 bars. Bar \<open>i\<close> lies on the ray
  at angle \<open>2 * pi * i / 64 - pi / 2\<close> (bar 0 points up), starts 10 pixels outside the
  pulse circle and has length \<open>max 4 (v / 255 * 100)\<close>, where \<open>v\<close> is the byte at index
  \<open>i * (n div 64)\<close> of the snapshot: linear in \<open>v\<close> above the floor of 4 pixels.\<close>

theorem draw_spectrum_bars:
  assumes "isPlaying inp" and "analyser inp = Some d" and "4 \<le> length d"
  shows "fst (draw inp c) = None
    \<and> length (painted (snd (draw inp c))) = 2 + 64
    \<and> drop 2 (painted (snd (draw inp c))) =
        map (\<lambda>i. Stroke (barGradient (width c / 2) (height c / 2)) 4 Round
               [MoveTo (width c / 2 + cos (2 * pi * real i / 64 - pi / 2) * (visualRadius inp + 10))
                       (height c / 2 + sin (2 * pi * real i / 64 - pi / 2) * (visualRadius inp + 10)),
                LineTo (width c / 2 + cos (2 * pi * real i / 64 - pi / 2)
                          * (visualRadius inp + 10 + barHeight (barValue d (i * (length d div 64)))))
                       (height c / 2 + sin (2 * pi * real i / 64 - pi / 2)
                          * (visualRadius inp + 10 + barHeight (barValue d (i * (length d div 64)))))])
            [0 ..< 64]
    \<and> (\<forall>k. barValue d k = (if k < length d then real (unat (d ! k)) else 0))
    \<and> (\<forall>v. barHeight v = max 4 (v / 255 * 100))
    \<and> (\<forall>v a r cx cy.
          sqrt (((cx + cos a * (r + barHeight v)) - (cx + cos a * r))\<^sup>2
              + ((cy + sin a * (r + barHeight v)) - (cy + sin a * r))\<^sup>2) = max 4 (v / 255 * 100))"
proof -
  have ang: "barAngle 64 i = 2 * pi * real i / 64 - pi / 2" for i
    by (simp add: barAngle_def)
  have len: "length (painted (snd (draw inp c))) = 2 + 64"
    by (simp add: painted_draw_playing [OF assms] del: upt_Suc)
  have bars: "drop 2 (painted (snd (draw inp c))) =
        map (\<lambda>i. Stroke (barGradient (width c / 2) (height c / 2)) 4 Round
               [MoveTo (width c / 2 + cos (2 * pi * real i / 64 - pi / 2) * (visualRadius inp + 10))
                       (height c / 2 + sin (2 * pi * real i / 64 - pi / 2) * (visualRadius inp + 10)),
                LineTo (width c / 2 + cos (2 * pi * real i / 64 - pi / 2)
                          * (visualRadius inp + 10 + barHeight (barValue d (i * (length d div 64)))))
                       (height c / 2 + sin (2 * pi * real i / 64 - pi / 2)
                          * (visualRadius inp + 10 + barHeight (barValue d (i * (length d div 64)))))])
            [0 ..< 64]"
    by (simp add: painted_draw_playing [OF assms] ang del: upt_Suc)
  have bh: "barHeight v = max 4 (v / 255 * 100)" for v
    by (simp add: barHeight_def)
  have pos: "0 \<le> max 4 (v / 255 * 100)" for v :: real
    by simp
  have dist: "sqrt (((cx + cos a * (r + barHeight v)) - (cx + cos a * r))\<^sup>2
              + ((cy + sin a * (r + barHeight v)) - (cy + sin a * r))\<^sup>2) = max 4 (v / 255 * 100)"
    for v a r cx cy
    unfolding bh by (rule bar_length [OF pos])
  have bv: "barValue d k = (if k < length d then real (unat (d ! k)) else 0)" for k
    by (simp add: barValue_def)
  from painted_draw_playing(1) [OF assms] len bars bv bh dist show ?thesis
    by blast
qed

theorem draw_spectrum_bars_witness:
  "isPlaying (silentFrame True) \<and> analyser (silentFrame True) = Some (replicate 128 0)
   \<and> 4 \<le> length (replicate 128 (0 :: byte))
   \<and> fst (draw (silentFrame True) freshContext) = None
   \<and> length (painted (snd (draw (silentFrame True) freshContext))) = 66"
  using draw_spectrum_bars [of "silentFrame True" "replicate 128 0" freshContext]
  by (simp add: silentFrame_def)

text \<open>The claim as stated fails on a silent snapshot: the byte of bar 0 is 0, the bar is
  4 pixels long, from \<open>(200, 120)\<close> up to \<open>(200, 116)\<close>, where the claim has a bar of
  length 0 at angle 0.\<close>

theorem spectrum_bar_counterexample:
  "painted (snd (draw (silentFrame True) freshContext)) ! 2
     = Stroke (barGradient 200 200) 4 Round [MoveTo 200 120, LineTo 200 116]
   \<and> barValue (replicate 128 0) 0 = 0
   \<and> painted (snd (draw (silentFrame True) freshContext)) ! 2
     \<noteq> Stroke (barGradient 200 200) 4 Round
         [MoveTo (200 + cos (2 * pi * 0 / 64) * 80) (200 + sin (2 * pi * 0 / 64) * 80),
          LineTo (200 + cos (2 * pi * 0 / 64) * (80 + 0 / 255 * 100))
                 (200 + sin (2 * pi * 0 / 64) * (80 + 0 / 255 * 100))]"
proof -
  have "painted (snd (draw (silentFrame True) freshContext)) ! 2
      = Stroke (barGradient 200 200) 4 Round [MoveTo 200 120, LineTo 200 116]"
    by (simp add: painted_draw_playing(2) [OF silentFrame_playing] visualRadius_silentFrame
        freshContext_def barAngle_def barValue_def barHeight_def del: upt_Suc)
  then show ?thesis
    by (simp add: barValue_def)
qed

subsection \<open>A frame does not depend on the frames before it\<close>

lemma draw_forgets:
  "fst (draw inp (c\<lparr>fillStyle := f, strokeStyle := s, lineWidth := lw, path := p, painted := q\<rparr>))
     = fst (draw inp c)"
  "painted (snd (draw inp (c\<lparr>fillStyle := f, strokeStyle := s, lineWidth := lw, path := p, painted := q\<rparr>)))
     = painted (snd (draw inp c))"
  by (simp_all add: draw_def Let_def painted_simps clearRect_def split: option.splits del: upt_Suc)

lemma draw_uncapped:
  "fst (draw inp (c\<lparr>lineCap := k\<rparr>)) = fst (draw inp c)"
  "map withoutCap (painted (snd (draw inp (c\<lparr>lineCap := k\<rparr>))))
     = map withoutCap (painted (snd (draw inp c)))"
  by (simp_all add: draw_def Let_def painted_simps clearRect_def split: option.splits del: upt_Suc)

lemma lineCap_fold_drawParticle:
  "lineCap (fold (drawParticle cx cy vr t) js ctx) = lineCap ctx"
  by (induction js arbitrary: ctx)
     (simp_all add: drawParticle_def Let_def fill_def arc_def beginPath_def)

lemma lineCap_after_idle:
  "\<not> isPlaying inp \<Longrightarrow> lineCap (snd (draw inp c)) = lineCap c"
  by (simp add: draw_def Let_def drawParticles_def lineCap_fold_drawParticle lineCap_drawCore
      attrs_clearRect split: option.splits del: upt_Suc)

text \<open>Claim C8, as the code has it. On a canvas of a given size, the outcome of a frame
  and the shapes it leaves painted, with their paths, paints and line widths, are the
  same whatever context the earlier frames left behind: the frame clears the whole
  canvas, starts every path anew and assigns fill style, stroke style and line width
  before it uses them. What it paints is a function of the playing flag, the analyser
  snapshot and the clock. The line cap of the inner circle's stroke is the one inherited
  attribute (\<open>draw\<close> assigns \<open>lineCap\<close> in the bars branch only, after that stroke): with
  equal line caps before the frame, the painted shapes are equal in full.\<close>

theorem draw_stateless:
  "width c1 = width c2 \<Longrightarrow> height c1 = height c2 \<Longrightarrow>
     fst (draw inp c1) = fst (draw inp c2)
     \<and> map withoutCap (painted (snd (draw inp c1))) = map withoutCap (painted (snd (draw inp c2)))
     \<and> (lineCap c1 = lineCap c2 \<longrightarrow> painted (snd (draw inp c1)) = painted (snd (draw inp c2)))"
proof -
  assume wh: "width c1 = width c2" "height c1 = height c2"
  let ?c = "c1\<lparr>lineCap := lineCap c2\<rparr>"
  have eq: "c2 = ?c\<lparr>fillStyle := fillStyle c2, strokeStyle := strokeStyle c2,
      lineWidth := lineWidth c2, path := path c2, painted := painted c2\<rparr>"
    using wh by simp
  have a: "fst (draw inp c2) = fst (draw inp ?c)"
    by (subst eq) (rule draw_forgets)
  have b: "painted (snd (draw inp c2)) = painted (snd (draw inp ?c))"
    by (subst eq) (rule draw_forgets)
  have "fst (draw inp c1) = fst (draw inp c2)"
    using a by (simp add: draw_uncapped)
  moreover have "map withoutCap (painted (snd (draw inp c1)))
      = map withoutCap (painted (snd (draw inp c2)))"
    using b by (simp add: draw_uncapped)
  moreover have "painted (snd (draw inp c1)) = painted (snd (draw inp c2))"
    if "lineCap c1 = lineCap c2"
  proof -
    from that have "?c = c1" by simp
    with b show ?thesis by simp
  qed
  ultimately show ?thesis by blast
qed

text \<open>The witness: an idle frame drawn on the fresh context and on what a playing frame
  left behind (66 shapes, a path, the bar gradient as stroke style, round caps), and a
  playing frame drawn on the fresh context and on what an idle frame left behind, the
  line cap being the same.\<close>

theorem draw_stateless_witness:
  "width freshContext = width (snd (draw (silentFrame True) freshContext))
   \<and> height freshContext = height (snd (draw (silentFrame True) freshContext))
   \<and> painted (snd (draw (silentFrame True) freshContext)) \<noteq> []
   \<and> map withoutCap (painted (snd (draw (silentFrame False) freshContext)))
       = map withoutCap
           (painted (snd (draw (silentFrame False) (snd (draw (silentFrame True) freshContext)))))
   \<and> width freshContext = width (snd (draw (silentFrame False) freshContext))
   \<and> height freshContext = height (snd (draw (silentFrame False) freshContext))
   \<and> lineCap freshContext = lineCap (snd (draw (silentFrame False) freshContext))
   \<and> painted (snd (draw (silentFrame False) freshContext)) \<noteq> []
   \<and> painted (snd (draw (silentFrame True) freshContext))
       = painted (snd (draw (silentFrame True) (snd (draw (silentFrame False) freshContext))))"
proof -
  let ?c = "snd (draw (silentFrame True) freshContext)"
  let ?d = "snd (draw (silentFrame False) freshContext)"
  have idle: "\<not> isPlaying (silentFrame False)"
    by (simp add: silentFrame_def)
  have w: "width freshContext = width ?c" and h: "height freshContext = height ?c"
    by (simp_all add: size_draw)
  have w': "width freshContext = width ?d" and h': "height freshContext = height ?d"
    by (simp_all add: size_draw)
  have k: "lineCap freshContext = lineCap ?d"
    by (simp add: lineCap_after_idle [OF idle])
  have ne: "painted ?c \<noteq> []"
    by (simp add: painted_draw_playing(2) [OF silentFrame_playing])
  have "length (painted ?d) = 10"
    by (rule length_painted_idle [OF idle])
  then have ne': "painted ?d \<noteq> []"
    by auto
  from draw_stateless [OF w h, of "silentFrame False"]
    draw_stateless [OF w' h', of "silentFrame True"] w h w' h' k ne ne'
  show ?thesis
    by blast
qed

lemma lineCap_fold_drawBar:
  "lineCap (fold (drawBar cx cy vr d bars step) js ctx) = lineCap ctx"
  by (induction js arbitrary: ctx)
     (simp_all add: drawBar_def Let_def stroke_def lineTo_def moveTo_def beginPath_def)

lemma lineCap_after_bars:
  assumes "isPlaying inp" and "analyser inp = Some d" and "4 \<le> length d"
  shows "lineCap (snd (draw inp c)) = Round"
proof -
  have nn: "\<not> averageIsNaN (analyser inp)"
    using assms by (simp add: averageIsNaN_def bassCount_def frequencyBinCount_def)
  show ?thesis
    using assms nn by (simp add: draw_def Let_def drawBars_def lineCap_fold_drawBar del: upt_Suc)
qed

lemma ring_idle:
  "\<not> isPlaying inp \<Longrightarrow> painted (snd (draw inp c)) ! 1 =
     Stroke (Color ''rgba(255, 255, 255, 0.1)'') 2 (lineCap c)
       [Arc (width c / 2) (height c / 2) (visualRadius inp - 5) 0 (pi * 2)]"
  by (simp add: draw_def Let_def painted_simps split: option.splits del: upt_Suc)

text \<open>The claim as stated fails twice. Two frames with the same clock and the same
  snapshot, one drawn while playing and one while idle, paint 66 and 10 shapes. And the
  same idle frame strokes the inner circle with butt caps on the fresh context and with
  round caps after a playing frame.\<close>

theorem draw_stateless_counterexample:
  "dateNow (silentFrame True) = dateNow (silentFrame False)
   \<and> analyser (silentFrame True) = analyser (silentFrame False)
   \<and> length (painted (snd (draw (silentFrame True) freshContext))) = 66
   \<and> length (painted (snd (draw (silentFrame False) freshContext))) = 10
   \<and> painted (snd (draw (silentFrame True) freshContext))
       \<noteq> painted (snd (draw (silentFrame False) freshContext))
   \<and> painted (snd (draw (silentFrame False) freshContext)) ! 1
       \<noteq> painted (snd (draw (silentFrame False) (snd (draw (silentFrame True) freshContext)))) ! 1"
proof -
  have p: "length (painted (snd (draw (silentFrame True) freshContext))) = 66"
    by (simp add: painted_draw_playing(2) [OF silentFrame_playing] del: upt_Suc)
  have idle: "\<not> isPlaying (silentFrame False)"
    by (simp add: silentFrame_def)
  have i: "length (painted (snd (draw (silentFrame False) freshContext))) = 10"
    by (rule length_painted_idle [OF idle])
  from p i have d: "painted (snd (draw (silentFrame True) freshContext))
       \<noteq> painted (snd (draw (silentFrame False) freshContext))"
    by auto
  have r: "painted (snd (draw (silentFrame False) freshContext)) ! 1
       \<noteq> painted (snd (draw (silentFrame False) (snd (draw (silentFrame True) freshContext)))) ! 1"
    unfolding ring_idle [OF idle] lineCap_after_bars [OF silentFrame_playing]
    by (simp add: freshContext_def)
  from p i d r show ?thesis
    by (simp add: silentFrame_def)
qed

section \<open>Properties of the application\<close>

subsection \<open>Refused input and failed generation\<close>

lemma js_trim_blank: "isWhiteSpace c \<Longrightarrow> js_trim (replicate n c) = []"
  by (simp add: js_trim_def)

lemma space_isWhiteSpace: "isWhiteSpace 0x20"
  by (simp add: isWhiteSpace_def)

lemma find_default: "find (\<lambda>v. voice_id v = ''v_mike'') VOICE_OPTIONS
   = Some \<lparr>voice_id = ''v_mike'', apiVoice = Charon, displayName = ''Mike'', tags = ''Deep // Narrative''\<rparr>"
  by (simp add: VOICE_OPTIONS_def)

lemma trim_Hi: "js_trim (utf16 ''Hi'') \<noteq> []"
  by (simp add: js_trim_def utf16_def isWhiteSpace_def)

text \<open>Claim C9, as the code has it. \<open>handleGenerate\<close> returns at once and changes
  nothing when the text is empty or only white space. Otherwise, with the audio context
  in place, a text of more than 5000 code units makes it show the alert and return: the
  state is the same but for that alert, so the audio buffer, the download URL and the
  loading flag are unchanged and no request is sent.\<close>

theorem handleGenerate_refuses:
  "(js_trim (text_st s) = [] \<longrightarrow> handleGenerate env s = s)
   \<and> (js_trim (text_st s) \<noteq> [] \<and> audioContextRef s \<noteq> None \<and> MAX_CHARS < length (text_st s) \<longrightarrow>
        handleGenerate env s
          = s\<lparr>trace := trace s @ [Alert ''Character limit exceeded. Please reduce to 5000 characters.'']\<rparr>
        \<and> audioBuffer (handleGenerate env s) = audioBuffer s
        \<and> downloadUrl (handleGenerate env s) = downloadUrl s
        \<and> isLoading (handleGenerate env s) = isLoading s)
   \<and> MAX_CHARS = 5000"
  by (simp add: handleGenerate_def MAX_CHARS_def)

lemma js_trim_nonblank: "\<not> isWhiteSpace c \<Longrightarrow> js_trim (replicate n c) = replicate n c"
  by (simp add: js_trim_def)

theorem handleGenerate_refuses_witness:
  "js_trim (text_st blankTextState) = []
   \<and> handleGenerate sampleEnv blankTextState = blankTextState
   \<and> js_trim (text_st longTextState) \<noteq> [] \<and> audioContextRef longTextState \<noteq> None
   \<and> MAX_CHARS < length (text_st longTextState)
   \<and> alerts (trace (handleGenerate sampleEnv longTextState))
       = [''Character limit exceeded. Please reduce to 5000 characters.'']
   \<and> audioBuffer (handleGenerate sampleEnv longTextState) = None
   \<and> downloadUrl (handleGenerate sampleEnv longTextState) = None
   \<and> isLoading (handleGenerate sampleEnv longTextState) = False"
proof -
  have b: "js_trim (text_st blankTextState) = []"
    by (simp add: blankTextState_def js_trim_blank space_isWhiteSpace)
  have l: "js_trim (text_st longTextState) \<noteq> []" "audioContextRef longTextState \<noteq> None"
      "MAX_CHARS < length (text_st longTextState)"
    by (simp_all add: longTextState_def js_trim_nonblank isWhiteSpace_def mount_def MAX_CHARS_def)
  have i: "trace longTextState = []" "audioBuffer longTextState = None"
      "downloadUrl longTextState = None" "isLoading longTextState = False"
    by (simp_all add: longTextState_def mount_def initialState_def)
  from handleGenerate_refuses [of blankTextState sampleEnv] b
  have 1: "handleGenerate sampleEnv blankTextState = blankTextState" by blast
  from handleGenerate_refuses [of longTextState sampleEnv] l
  have 2: "handleGenerate sampleEnv longTextState
          = longTextState\<lparr>trace := trace longTextState @ [Alert ''Character limit exceeded. Please reduce to 5000 characters.'']\<rparr>"
    by blast
  show ?thesis
    unfolding 1 2 using b l i by simp
qed

text \<open>The claim as stated fails on 5001 spaces: the text is longer than 5000, the first
  test returns, and no alert is shown.\<close>

theorem blank_long_text_counterexample:
  "MAX_CHARS < length (text_st blankTextState)
   \<and> audioContextRef blankTextState \<noteq> None
   \<and> alerts (trace (handleGenerate sampleEnv blankTextState)) = []"
proof -
  have b: "js_trim (text_st blankTextState) = []"
    by (simp add: blankTextState_def js_trim_blank space_isWhiteSpace)
  then have "handleGenerate sampleEnv blankTextState = blankTextState"
    by (simp add: handleGenerate_def)
  then show ?thesis
    by (simp add: blankTextState_def mount_def initialState_def MAX_CHARS_def)
qed


lemma alerts_append: "alerts (xs @ ys) = alerts xs @ alerts ys"
  by (induction xs rule: alerts.induct) simp_all

lemma alerts_generateSpeech: "alerts (fst (generateSpeech env txt voice)) = []"
  by (simp add: generateSpeech_def split: api_outcome.splits option.splits sum.splits)

lemma trace_ensureAudioContext:
  "alerts (trace (ensureAudioContext s)) = alerts (trace s)"
  by (simp add: ensureAudioContext_def alerts_append split: option.splits)

lemma handleGenerate_failure:
  assumes "js_trim (text_st s) \<noteq> []" and "audioContextRef s \<noteq> None"
    and "length (text_st s) \<le> MAX_CHARS"
    and "find (\<lambda>v. voice_id v = selectedVoiceId s) VOICE_OPTIONS = Some opt"
    and "generateSpeech env (text_st s) (apiVoice opt) = (effs, Inl e)"
  shows "handleGenerate env s =
     (let s5 = (case downloadUrl s of
                  Some url \<Rightarrow> revokeObjectURL url ((ensureAudioContext s)\<lparr>isLoading := True, audioBuffer := None\<rparr>)
                | None \<Rightarrow> (ensureAudioContext s)\<lparr>isLoading := True, audioBuffer := None\<rparr>)\<lparr>downloadUrl := None\<rparr>;
          s6 = stopAudio s5
      in s6\<lparr>trace := trace s6 @ effs @ [ConsoleError e, Alert ''Generation failed. Please try again.''],
            isLoading := False\<rparr>)"
  using assms by (auto simp add: handleGenerate_def Let_def)

text \<open>Claim C10. When \<open>handleGenerate\<close> passes its tests and \<open>generateSpeech\<close> throws,
  the handler ends with no audio buffer, no download URL, no source node, not playing
  and not loading; the previous URL is revoked, the previous node is silent, and the
  trace shows the revocation and the stop before the effects of the call, then the
  logged error and the alert.\<close>

theorem handleGenerate_failure_clears:
  assumes "js_trim (text_st s) \<noteq> []" and "audioContextRef s \<noteq> None"
    and "length (text_st s) \<le> MAX_CHARS"
    and "find (\<lambda>v. voice_id v = selectedVoiceId s) VOICE_OPTIONS = Some opt"
    and "generateSpeech env (text_st s) (apiVoice opt) = (effs, Inl e)"
  shows "audioBuffer (handleGenerate env s) = None
    \<and> downloadUrl (handleGenerate env s) = None
    \<and> sourceNodeRef (handleGenerate env s) = None
    \<and> isPlaying_st (handleGenerate env s) = False
    \<and> isLoading (handleGenerate env s) = False
    \<and> (\<forall>u. downloadUrl s = Some u \<longrightarrow> blobAt (handleGenerate env s) u = None)
    \<and> (\<forall>n. sourceNodeRef s = Some n \<longrightarrow> n \<notin> sounding (handleGenerate env s))
    \<and> trace (handleGenerate env s) =
        trace (ensureAudioContext s)
        @ (case downloadUrl s of Some u \<Rightarrow> [RevokeObjectURL u] | None \<Rightarrow> [])
        @ (case sourceNodeRef s of Some n \<Rightarrow> [SourceStop n] | None \<Rightarrow> [])
        @ effs @ [ConsoleError e, Alert ''Generation failed. Please try again.'']"
  unfolding handleGenerate_failure [OF assms]
  by (simp add: Let_def stopAudio_def stopSource_def revokeObjectURL_def ensureAudioContext_def
      blobAt_def split: option.splits)


lemma generateSpeech_sample:
  "generateSpeech sampleEnv txt voice =
     ([GenerateContent txt voice], Inr (decodeAudioData sampleToFloat [0x00, 0x00, 0xFF, 0x7F] 24000 1))"
  by (simp add: generateSpeech_def sampleEnv_def sampleReply_def sampleDecode_def utf16_def)

lemma generateSpeech_noKey:
  "generateSpeech noKeyEnv txt voice = ([], Inl (Error ''API Key is missing.''))"
  by (simp add: generateSpeech_def noKeyEnv_def)

lemma pcmScale_sampleEnv: "pcmScale sampleEnv = sampleScale"
  by (simp add: sampleEnv_def)

lemma length_Hi: "length (utf16 ''Hi'') = 2"
  by (simp add: utf16_def)

lemma shortTextState_fields:
  "text_st shortTextState = utf16 ''Hi''"
  "selectedVoiceId shortTextState = ''v_mike''"
  "audioContextRef shortTextState = Some \<lparr>ctx_state = Running, ctx_sampleRate = 24000\<rparr>"
  "analyserRef shortTextState = Some \<lparr>fftSize = 256\<rparr>"
  "downloadUrl shortTextState = None"
  "sourceNodeRef shortTextState = None"
  "sourceNodes shortTextState = []"
  "objectUrls shortTextState = []"
  "sounding shortTextState = {}"
  "trace shortTextState = []"
  "previewVoiceId shortTextState = None"
  by (simp_all add: shortTextState_def mount_def initialState_def VOICE_OPTIONS_def)

lemma generatedState_fields:
  "text_st generatedState = utf16 ''Hi''"
  "selectedVoiceId generatedState = ''v_mike''"
  "audioContextRef generatedState = Some \<lparr>ctx_state = Running, ctx_sampleRate = 24000\<rparr>"
  "analyserRef generatedState = Some \<lparr>fftSize = 256\<rparr>"
  "audioBuffer generatedState = Some (decodeAudioData sampleToFloat [0x00, 0x00, 0xFF, 0x7F] 24000 1)"
  "downloadUrl generatedState = Some 0"
  "sourceNodeRef generatedState = Some 0"
  "sounding generatedState = {0}"
  "isPlaying_st generatedState = True"
  "previewVoiceId generatedState = None"
  "objectUrls generatedState
     = [Some (audioBufferToWav sampleScale (decodeAudioData sampleToFloat [0x00, 0x00, 0xFF, 0x7F] 24000 1))]"
  "trace generatedState = [GenerateContent (utf16 ''Hi'') Charon, CreateObjectURL 0, SourceStart 0]"
  by (simp_all add: generatedState_def handleGenerate_def shortTextState_fields trim_Hi
      MAX_CHARS_def find_default generateSpeech_sample Let_def ensureAudioContext_def
      stopAudio_def createObjectURL_def playAudio_def pcmScale_sampleEnv length_Hi)

theorem handleGenerate_failure_clears_witness:
  "js_trim (text_st generatedState) \<noteq> [] \<and> audioContextRef generatedState \<noteq> None
   \<and> length (text_st generatedState) \<le> MAX_CHARS
   \<and> find (\<lambda>v. voice_id v = selectedVoiceId generatedState) VOICE_OPTIONS \<noteq> None
   \<and> snd (generateSpeech noKeyEnv (text_st generatedState) Charon) = Inl (Error ''API Key is missing.'')
   \<and> audioBuffer generatedState \<noteq> None
   \<and> downloadUrl generatedState = Some 0
   \<and> blobAt generatedState 0 \<noteq> None
   \<and> sounding generatedState = {0}
   \<and> audioBuffer (handleGenerate noKeyEnv generatedState) = None
   \<and> downloadUrl (handleGenerate noKeyEnv generatedState) = None
   \<and> blobAt (handleGenerate noKeyEnv generatedState) 0 = None
   \<and> 0 \<notin> sounding (handleGenerate noKeyEnv generatedState)
   \<and> trace (handleGenerate noKeyEnv generatedState) =
       trace generatedState @ [RevokeObjectURL 0, SourceStop 0,
         ConsoleError (Error ''API Key is missing.''), Alert ''Generation failed. Please try again.'']"
proof -
  have a: "js_trim (text_st generatedState) \<noteq> []" "audioContextRef generatedState \<noteq> None"
      "length (text_st generatedState) \<le> MAX_CHARS"
    by (simp_all add: generatedState_fields trim_Hi MAX_CHARS_def length_Hi)
  have f: "find (\<lambda>v. voice_id v = selectedVoiceId generatedState) VOICE_OPTIONS
      = Some \<lparr>voice_id = ''v_mike'', apiVoice = Charon, displayName = ''Mike'', tags = ''Deep // Narrative''\<rparr>"
    by (simp add: generatedState_fields find_default)
  have g: "generateSpeech noKeyEnv (text_st generatedState)
      (apiVoice \<lparr>voice_id = ''v_mike'', apiVoice = Charon, displayName = ''Mike'', tags = ''Deep // Narrative''\<rparr>)
      = ([], Inl (Error ''API Key is missing.''))"
    by (rule generateSpeech_noKey)
  have e: "ensureAudioContext generatedState = generatedState"
    by (simp add: ensureAudioContext_def generatedState_fields)
  from handleGenerate_failure_clears [OF a f g] a f
  show ?thesis
    by (simp add: generatedState_fields generateSpeech_noKey blobAt_def e)
qed


lemma handlePreview_failure:
  assumes "audioContextRef s \<noteq> None" and "previewVoiceId s = None"
    and "generateSpeech env (utf16 (''Hello, I am '' @ displayName voice @ ''.'')) (apiVoice voice) = (effs, Inl e)"
  shows "handlePreview env voice s =
     (let s3 = stopAudio ((ensureAudioContext s)\<lparr>previewVoiceId := Some (voice_id voice)\<rparr>)
      in s3\<lparr>trace := trace s3 @ effs @ [ConsoleError e], previewVoiceId := None\<rparr>)"
  using assms by (auto simp add: handlePreview_def Let_def)

lemma alerts_stopAudio: "alerts (trace (stopAudio s)) = alerts (trace s)"
  by (simp add: stopAudio_def stopSource_def Let_def alerts_append split: option.splits)

lemma alerts_revoke: "alerts (trace (revokeObjectURL u s)) = alerts (trace s)"
  by (simp add: revokeObjectURL_def alerts_append)

text \<open>Claim C2, as the code has it. \<open>generateSpeech\<close> throws one error when the key is
  missing, when the request fails and when the response holds no audio. When it throws
  inside \<open>handleGenerate\<close>, the handler shows one alert. When it throws inside
  \<open>handlePreview\<close>, the handler logs the error to the console and clears the preview
  marker; it shows no alert.\<close>

theorem failures_are_reported:
  "(API_KEY env = [] \<longrightarrow>
      generateSpeech env txt voice = ([], Inl (Error ''API Key is missing.'')))
   \<and> (API_KEY env \<noteq> [] \<and> generateContent env txt voice = Rejected err \<longrightarrow>
      snd (generateSpeech env txt voice) = Inl err)
   \<and> (API_KEY env \<noteq> [] \<and> (generateContent env txt voice = Responded None
         \<or> generateContent env txt voice = Responded (Some [])) \<longrightarrow>
      snd (generateSpeech env txt voice) = Inl (Error ''No audio data returned from Gemini.''))
   \<and> (js_trim (text_st s) \<noteq> [] \<and> audioContextRef s \<noteq> None \<and> length (text_st s) \<le> MAX_CHARS
       \<and> find (\<lambda>v. voice_id v = selectedVoiceId s) VOICE_OPTIONS = Some opt
       \<and> generateSpeech env (text_st s) (apiVoice opt) = (effs, Inl e) \<longrightarrow>
      alerts (trace (handleGenerate env s))
        = alerts (trace s) @ [''Generation failed. Please try again.''])
   \<and> (audioContextRef s \<noteq> None \<and> previewVoiceId s = None
       \<and> generateSpeech env (utf16 (''Hello, I am '' @ displayName pv @ ''.'')) (apiVoice pv)
           = (effs', Inl e') \<longrightarrow>
      alerts (trace (handlePreview env pv s)) = alerts (trace s)
      \<and> last (trace (handlePreview env pv s)) = ConsoleError e'
      \<and> previewVoiceId (handlePreview env pv s) = None)"
proof -
  have k: "generateSpeech env txt voice = ([], Inl (Error ''API Key is missing.''))"
    if "API_KEY env = []"
    using that by (simp add: generateSpeech_def)
  have r: "snd (generateSpeech env txt voice) = Inl err"
    if "API_KEY env \<noteq> []" "generateContent env txt voice = Rejected err"
    using that by (simp add: generateSpeech_def)
  have n: "snd (generateSpeech env txt voice) = Inl (Error ''No audio data returned from Gemini.'')"
    if "API_KEY env \<noteq> []" "generateContent env txt voice = Responded None
         \<or> generateContent env txt voice = Responded (Some [])"
    using that by (auto simp add: generateSpeech_def)
  have g: "alerts (trace (handleGenerate env s))
        = alerts (trace s) @ [''Generation failed. Please try again.'']"
    if a: "js_trim (text_st s) \<noteq> []" "audioContextRef s \<noteq> None" "length (text_st s) \<le> MAX_CHARS"
       "find (\<lambda>v. voice_id v = selectedVoiceId s) VOICE_OPTIONS = Some opt"
       "generateSpeech env (text_st s) (apiVoice opt) = (effs, Inl e)"
  proof -
    have "alerts effs = []"
      using alerts_generateSpeech [of env "text_st s" "apiVoice opt"] a(5) by simp
    then show ?thesis
      unfolding handleGenerate_failure [OF a]
      by (simp add: Let_def alerts_append alerts_stopAudio alerts_revoke
          trace_ensureAudioContext split: option.splits)
  qed
  have p: "alerts (trace (handlePreview env pv s)) = alerts (trace s)
      \<and> last (trace (handlePreview env pv s)) = ConsoleError e'
      \<and> previewVoiceId (handlePreview env pv s) = None"
    if a: "audioContextRef s \<noteq> None" "previewVoiceId s = None"
       "generateSpeech env (utf16 (''Hello, I am '' @ displayName pv @ ''.'')) (apiVoice pv)
           = (effs', Inl e')"
  proof -
    have "alerts effs' = []"
      using alerts_generateSpeech [of env "utf16 (''Hello, I am '' @ displayName pv @ ''.'')" "apiVoice pv"] a(3)
      by simp
    then show ?thesis
      unfolding handlePreview_failure [OF a]
      by (simp add: Let_def alerts_append alerts_stopAudio trace_ensureAudioContext)
  qed
  from k r n g p show ?thesis
    by blast
qed

theorem failures_are_reported_witness:
  "API_KEY noKeyEnv = []
   \<and> generateSpeech noKeyEnv (text_st shortTextState) Charon
       = ([], Inl (Error ''API Key is missing.''))
   \<and> API_KEY rejectingEnv \<noteq> []
   \<and> generateContent rejectingEnv (utf16 ''Hi'') Charon = Rejected (Error ''503 Service Unavailable'')
   \<and> snd (generateSpeech rejectingEnv (utf16 ''Hi'') Charon) = Inl (Error ''503 Service Unavailable'')
   \<and> API_KEY noAudioEnv \<noteq> []
   \<and> generateContent noAudioEnv (utf16 ''Hi'') Charon = Responded None
   \<and> snd (generateSpeech noAudioEnv (utf16 ''Hi'') Charon)
       = Inl (Error ''No audio data returned from Gemini.'')
   \<and> js_trim (text_st shortTextState) \<noteq> [] \<and> audioContextRef shortTextState \<noteq> None
   \<and> length (text_st shortTextState) \<le> MAX_CHARS
   \<and> find (\<lambda>v. voice_id v = selectedVoiceId shortTextState) VOICE_OPTIONS \<noteq> None
   \<and> alerts (trace (handleGenerate noKeyEnv shortTextState))
       = [''Generation failed. Please try again.'']
   \<and> previewVoiceId shortTextState = None
   \<and> alerts (trace (handlePreview noKeyEnv (VOICE_OPTIONS ! 0) shortTextState)) = []
   \<and> last (trace (handlePreview noKeyEnv (VOICE_OPTIONS ! 0) shortTextState))
       = ConsoleError (Error ''API Key is missing.'')"
proof -
  let ?mike = "\<lparr>voice_id = ''v_mike'', apiVoice = Charon, displayName = ''Mike'', tags = ''Deep // Narrative''\<rparr>"
  have a: "js_trim (text_st shortTextState) \<noteq> []" "audioContextRef shortTextState \<noteq> None"
      "length (text_st shortTextState) \<le> MAX_CHARS"
    by (simp_all add: shortTextState_fields trim_Hi MAX_CHARS_def length_Hi)
  have f: "find (\<lambda>v. voice_id v = selectedVoiceId shortTextState) VOICE_OPTIONS = Some ?mike"
    by (simp add: shortTextState_fields find_default)
  have k: "API_KEY noKeyEnv = []"
    by (simp add: noKeyEnv_def)
  have r: "API_KEY rejectingEnv \<noteq> []"
      "generateContent rejectingEnv (utf16 ''Hi'') Charon = Rejected (Error ''503 Service Unavailable'')"
    by (simp_all add: rejectingEnv_def sampleEnv_def sampleReject_def)
  have n: "API_KEY noAudioEnv \<noteq> []"
      "generateContent noAudioEnv (utf16 ''Hi'') Charon = Responded None"
    by (simp_all add: noAudioEnv_def sampleEnv_def sampleNoAudio_def)
  have p: "previewVoiceId shortTextState = None"
    by (simp add: shortTextState_fields)
  have g: "generateSpeech noKeyEnv t voice = ([], Inl (Error ''API Key is missing.''))" for t voice
    using failures_are_reported [of noKeyEnv t voice] k by blast
  have 2: "snd (generateSpeech rejectingEnv (utf16 ''Hi'') Charon) = Inl (Error ''503 Service Unavailable'')"
    using failures_are_reported [of rejectingEnv "utf16 ''Hi''" Charon "Error ''503 Service Unavailable''"] r
    by blast
  have 3: "snd (generateSpeech noAudioEnv (utf16 ''Hi'') Charon)
       = Inl (Error ''No audio data returned from Gemini.'')"
    using failures_are_reported [of noAudioEnv "utf16 ''Hi''" Charon] n
    by blast
  have 4: "alerts (trace (handleGenerate noKeyEnv shortTextState))
        = alerts (trace shortTextState) @ [''Generation failed. Please try again.'']"
    using failures_are_reported [of noKeyEnv _ _ _ shortTextState ?mike "[]" "Error ''API Key is missing.''"]
      a f g [of "text_st shortTextState" "apiVoice ?mike"]
    by blast
  have 5: "alerts (trace (handlePreview noKeyEnv (VOICE_OPTIONS ! 0) shortTextState))
        = alerts (trace shortTextState)
      \<and> last (trace (handlePreview noKeyEnv (VOICE_OPTIONS ! 0) shortTextState))
        = ConsoleError (Error ''API Key is missing.'')"
    using failures_are_reported [of noKeyEnv _ _ _ shortTextState _ _ _ "VOICE_OPTIONS ! 0" "[]"
        "Error ''API Key is missing.''"]
      a(2) p g [of "utf16 (''Hello, I am '' @ displayName (VOICE_OPTIONS ! 0) @ ''.'')" "apiVoice (VOICE_OPTIONS ! 0)"]
    by blast
  from a f k r n p g [of "text_st shortTextState" Charon] 2 3 4 5 show ?thesis
    by (simp add: shortTextState_fields)
qed

text \<open>The claim as stated fails for a preview: without a key \<open>generateSpeech\<close> throws
  and the only effect of \<open>handlePreview\<close> is the console message.\<close>

theorem preview_failure_counterexample:
  "snd (generateSpeech noKeyEnv (utf16 (''Hello, I am '' @ displayName (VOICE_OPTIONS ! 0) @ ''.''))
         (apiVoice (VOICE_OPTIONS ! 0))) = Inl (Error ''API Key is missing.'')
   \<and> trace (handlePreview noKeyEnv (VOICE_OPTIONS ! 0) shortTextState)
       = [ConsoleError (Error ''API Key is missing.'')]
   \<and> alerts (trace (handlePreview noKeyEnv (VOICE_OPTIONS ! 0) shortTextState)) = []"
proof -
  have t: "trace (handlePreview noKeyEnv (VOICE_OPTIONS ! 0) shortTextState)
       = [ConsoleError (Error ''API Key is missing.'')]"
    by (simp add: handlePreview_def shortTextState_fields generateSpeech_noKey Let_def
        ensureAudioContext_def stopAudio_def)
  show ?thesis
    unfolding t by (simp add: generateSpeech_noKey)
qed

subsection \<open>One source node sounds at a time\<close>

lemma soundingIsCurrent_stopAudio: "soundingIsCurrent s \<Longrightarrow> soundingIsCurrent (stopAudio s)"
  by (auto simp add: soundingIsCurrent_def stopAudio_def stopSource_def Let_def split: option.splits)

lemma soundingIsCurrent_playAudio:
  "soundingIsCurrent s \<Longrightarrow> soundingIsCurrent (playAudio buffer onEnded s)"
  by (auto simp add: soundingIsCurrent_def playAudio_def stopSource_def Let_def split: option.splits)

lemma soundingIsCurrent_sourceEnded:
  "soundingIsCurrent s \<Longrightarrow> soundingIsCurrent (sourceEnded n s)"
  by (auto simp add: soundingIsCurrent_def sourceEnded_def Let_def split: option.splits on_ended.splits)

lemma soundingIsCurrent_update:
  "soundingIsCurrent s \<Longrightarrow> sounding s' = sounding s \<Longrightarrow> sourceNodeRef s' = sourceNodeRef s
     \<Longrightarrow> soundingIsCurrent s'"
  by (simp add: soundingIsCurrent_def)

lemma ensureAudioContext_nodes:
  "sounding (ensureAudioContext s) = sounding s"
  "sourceNodeRef (ensureAudioContext s) = sourceNodeRef s"
  by (simp_all add: ensureAudioContext_def split: option.splits)

lemma revokeObjectURL_nodes:
  "sounding (revokeObjectURL u s) = sounding s"
  "sourceNodeRef (revokeObjectURL u s) = sourceNodeRef s"
  by (simp_all add: revokeObjectURL_def)

lemma soundingIsCurrent_handlePreview:
  assumes "soundingIsCurrent s"
  shows "soundingIsCurrent (handlePreview env v s)"
proof -
  let ?s2 = "(ensureAudioContext s)\<lparr>previewVoiceId := Some (voice_id v)\<rparr>"
  have 2: "soundingIsCurrent ?s2"
    by (rule soundingIsCurrent_update [OF assms]) (simp_all add: ensureAudioContext_nodes)
  have 3: "soundingIsCurrent (stopAudio ?s2)"
    by (rule soundingIsCurrent_stopAudio [OF 2])
  have 4: "soundingIsCurrent ((stopAudio ?s2)\<lparr>trace := t\<rparr>)" for t
    by (rule soundingIsCurrent_update [OF 3]) simp_all
  have 5: "soundingIsCurrent (playAudio b cb ((stopAudio ?s2)\<lparr>trace := t\<rparr>))" for b cb t
    by (rule soundingIsCurrent_playAudio [OF 4])
  have 6: "soundingIsCurrent ((stopAudio ?s2)\<lparr>trace := t, previewVoiceId := None\<rparr>)" for t
    by (rule soundingIsCurrent_update [OF 3]) simp_all
  show ?thesis
    using assms 5 6
    by (simp add: handlePreview_def Let_def split: prod.splits sum.splits)
qed


lemma soundingIsCurrent_handleGenerate:
  assumes "soundingIsCurrent s"
  shows "soundingIsCurrent (handleGenerate env s)"
proof -
  let ?s3 = "(ensureAudioContext s)\<lparr>isLoading := True, audioBuffer := None\<rparr>"
  let ?s5 = "(case downloadUrl s of Some url \<Rightarrow> revokeObjectURL url ?s3 | None \<Rightarrow> ?s3)\<lparr>downloadUrl := None\<rparr>"
  have 5: "soundingIsCurrent ?s5"
    by (rule soundingIsCurrent_update [OF assms])
       (simp_all add: ensureAudioContext_nodes revokeObjectURL_nodes split: option.splits)
  have 6: "soundingIsCurrent (stopAudio ?s5)"
    by (rule soundingIsCurrent_stopAudio [OF 5])
  have bad: "soundingIsCurrent ((stopAudio ?s5)\<lparr>trace := t, isLoading := False\<rparr>)" for t
    by (rule soundingIsCurrent_update [OF 6]) simp_all
  have ok: "soundingIsCurrent
      ((playAudio b cb ((stopAudio ?s5)\<lparr>trace := t, audioBuffer := Some b,
          objectUrls := us, trace := t', downloadUrl := Some u\<rparr>))\<lparr>isPlaying_st := True, isLoading := False\<rparr>)"
    for b cb t t' us u
  proof -
    have "soundingIsCurrent ((stopAudio ?s5)\<lparr>trace := t, audioBuffer := Some b,
          objectUrls := us, trace := t', downloadUrl := Some u\<rparr>)"
      by (rule soundingIsCurrent_update [OF 6]) simp_all
    then have "soundingIsCurrent (playAudio b cb ((stopAudio ?s5)\<lparr>trace := t, audioBuffer := Some b,
          objectUrls := us, trace := t', downloadUrl := Some u\<rparr>))"
      by (rule soundingIsCurrent_playAudio)
    then show ?thesis
      by (rule soundingIsCurrent_update) simp_all
  qed
  have al: "soundingIsCurrent (s\<lparr>trace := t\<rparr>)" for t
    by (rule soundingIsCurrent_update [OF assms]) simp_all
  show ?thesis
    using assms bad ok al
    by (simp add: handleGenerate_def Let_def createObjectURL_def split: prod.splits sum.splits option.splits)
qed

lemma soundingIsCurrent_handleClear:
  "soundingIsCurrent s \<Longrightarrow> soundingIsCurrent (handleClear s)"
  unfolding handleClear_def Let_def
  by (rule soundingIsCurrent_stopAudio, erule soundingIsCurrent_update) simp_all

text \<open>The context and the analyser, once created, stay.\<close>

lemma refs_stopAudio:
  "audioContextRef (stopAudio s) = None \<longleftrightarrow> audioContextRef s = None"
  "analyserRef (stopAudio s) = analyserRef s"
  by (simp_all add: stopAudio_def stopSource_def Let_def split: option.splits)

lemma refs_playAudio:
  "audioContextRef (playAudio b cb s) = None \<longleftrightarrow> audioContextRef s = None"
  "analyserRef (playAudio b cb s) = analyserRef s"
  by (simp_all add: playAudio_def stopSource_def Let_def split: option.splits)

lemma refs_sourceEnded:
  "audioContextRef (sourceEnded n s) = None \<longleftrightarrow> audioContextRef s = None"
  "analyserRef (sourceEnded n s) = analyserRef s"
  by (simp_all add: sourceEnded_def Let_def split: option.splits on_ended.splits)

lemma refs_ensureAudioContext:
  "audioContextRef (ensureAudioContext s) = None \<longleftrightarrow> audioContextRef s = None"
  "analyserRef (ensureAudioContext s) = analyserRef s"
  by (simp_all add: ensureAudioContext_def split: option.splits)

lemma refs_revokeObjectURL:
  "audioContextRef (revokeObjectURL u s) = audioContextRef s"
  "analyserRef (revokeObjectURL u s) = analyserRef s"
  by (simp_all add: revokeObjectURL_def)

lemmas refs_simps = refs_stopAudio refs_playAudio refs_sourceEnded refs_ensureAudioContext
  refs_revokeObjectURL

lemma refs_handlePreview:
  "audioContextRef (handlePreview env v s) = None \<longleftrightarrow> audioContextRef s = None"
  "analyserRef (handlePreview env v s) = analyserRef s"
  by (simp_all add: handlePreview_def Let_def refs_simps split: prod.splits sum.splits)

lemma refs_handleGenerate:
  "audioContextRef (handleGenerate env s) = None \<longleftrightarrow> audioContextRef s = None"
  "analyserRef (handleGenerate env s) = analyserRef s"
  by (simp_all add: handleGenerate_def Let_def refs_simps createObjectURL_def
      split: prod.splits sum.splits option.splits)

lemma refs_handleClear:
  "audioContextRef (handleClear s) = None \<longleftrightarrow> audioContextRef s = None"
  "analyserRef (handleClear s) = analyserRef s"
  by (simp_all add: handleClear_def Let_def refs_simps)

lemma reachable_invariants:
  "reachable s \<Longrightarrow>
     soundingIsCurrent s \<and> audioContextRef s \<noteq> None \<and> analyserRef s \<noteq> None"
proof (induction rule: reachable.induct)
  case (mounted st)
  show ?case
    by (simp add: soundingIsCurrent_def mount_def initialState_def)
next
  case (setText s t)
  then show ?case by (simp add: soundingIsCurrent_def)
next
  case (setSelectedVoiceId s v)
  then show ?case by (simp add: soundingIsCurrent_def)
next
  case (preview s v env)
  then show ?case by (simp add: soundingIsCurrent_handlePreview refs_handlePreview)
next
  case (generate s env)
  then show ?case by (simp add: soundingIsCurrent_handleGenerate refs_handleGenerate)
next
  case (clear s)
  then show ?case by (simp add: soundingIsCurrent_handleClear refs_handleClear)
next
  case (ended s n)
  then show ?case by (simp add: soundingIsCurrent_sourceEnded refs_sourceEnded)
next
  case (stop s)
  then show ?case by (simp add: soundingIsCurrent_stopAudio refs_stopAudio)
next
  case (play s buffer onEnded)
  then show ?case by (simp add: soundingIsCurrent_playAudio refs_playAudio)
qed


text \<open>Claim C6. In every reachable state a sounding source node is the one
  \<open>sourceNodeRef\<close> holds, so at most one node sounds. \<open>playAudio\<close> stops that node
  before it starts the new one: afterwards the new node is the only one sounding, and the
  trace has the stop, if there was a node, before the start.\<close>

theorem one_source_at_a_time:
  assumes "reachable s"
  shows "(\<forall>n \<in> sounding s. sourceNodeRef s = Some n)
     \<and> finite (sounding s) \<and> card (sounding s) \<le> 1
     \<and> sounding (playAudio buffer onEnded s) = {length (sourceNodes s)}
     \<and> sourceNodeRef (playAudio buffer onEnded s) = Some (length (sourceNodes s))
     \<and> trace (playAudio buffer onEnded s)
         = trace s @ (case sourceNodeRef s of Some n \<Rightarrow> [SourceStop n] | None \<Rightarrow> [])
           @ [SourceStart (length (sourceNodes s))]"
proof -
  from reachable_invariants [OF assms]
  have cur: "\<forall>n \<in> sounding s. sourceNodeRef s = Some n"
    and refs: "audioContextRef s \<noteq> None" "analyserRef s \<noteq> None"
    by (simp_all add: soundingIsCurrent_def)
  from cur have sub: "sounding s \<subseteq> set_option (sourceNodeRef s)"
    by auto
  have fin: "finite (sounding s)"
    by (rule finite_subset [OF sub]) simp
  have "card (sounding s) \<le> card (set_option (sourceNodeRef s))"
    by (rule card_mono [OF _ sub]) simp
  also have "\<dots> \<le> 1"
    by (cases "sourceNodeRef s") simp_all
  finally have card: "card (sounding s) \<le> 1" .
  have snd: "sounding (playAudio buffer onEnded s) = {length (sourceNodes s)}"
    using refs sub
    by (cases "sourceNodeRef s") (auto simp add: playAudio_def stopSource_def Let_def)
  have ref: "sourceNodeRef (playAudio buffer onEnded s) = Some (length (sourceNodes s))"
    using refs
    by (cases "sourceNodeRef s") (auto simp add: playAudio_def stopSource_def Let_def)
  have tr: "trace (playAudio buffer onEnded s)
         = trace s @ (case sourceNodeRef s of Some n \<Rightarrow> [SourceStop n] | None \<Rightarrow> [])
           @ [SourceStart (length (sourceNodes s))]"
    using refs
    by (cases "sourceNodeRef s") (auto simp add: playAudio_def stopSource_def Let_def)
  from cur fin card snd ref tr show ?thesis
    by blast
qed

lemma reachable_generatedState: "reachable generatedState"
  unfolding generatedState_def shortTextState_def
  by (intro reachable.generate reachable.setText reachable.mounted)

theorem one_source_at_a_time_witness:
  "reachable generatedState
   \<and> sounding generatedState = {0} \<and> sourceNodeRef generatedState = Some 0
   \<and> card (sounding generatedState) \<le> 1
   \<and> sounding (playAudio (decodeAudioData sampleToFloat [] 24000 1) None generatedState) = {1}
   \<and> trace (playAudio (decodeAudioData sampleToFloat [] 24000 1) None generatedState)
       = trace generatedState @ [SourceStop 0, SourceStart 1]"
proof -
  have n: "length (sourceNodes generatedState) = 1"
    by (simp add: generatedState_def handleGenerate_def shortTextState_fields trim_Hi
      MAX_CHARS_def find_default generateSpeech_sample Let_def ensureAudioContext_def
      stopAudio_def createObjectURL_def playAudio_def pcmScale_sampleEnv length_Hi)
  from one_source_at_a_time [OF reachable_generatedState,
      of "decodeAudioData sampleToFloat [] 24000 1" None] reachable_generatedState
  show ?thesis
    by (simp add: generatedState_fields n)
qed


subsection \<open>The downloadable file\<close>

lemma download_update:
  "downloadIsEncodedBuffer s \<Longrightarrow> downloadUrl s' = downloadUrl s \<Longrightarrow> audioBuffer s' = audioBuffer s
     \<Longrightarrow> objectUrls s' = objectUrls s \<Longrightarrow> downloadIsEncodedBuffer s'"
proof -
  assume inv: "downloadIsEncodedBuffer s"
    and eq: "downloadUrl s' = downloadUrl s" "audioBuffer s' = audioBuffer s"
      "objectUrls s' = objectUrls s"
  from eq have "downloadIsEncodedBuffer s' \<longleftrightarrow> downloadIsEncodedBuffer s"
    by (simp add: downloadIsEncodedBuffer_def blobAt_def)
  with inv show ?thesis by simp
qed

lemma download_none: "downloadUrl s = None \<Longrightarrow> downloadIsEncodedBuffer s"
  by (simp add: downloadIsEncodedBuffer_def)

lemma files_stopAudio:
  "downloadUrl (stopAudio s) = downloadUrl s"
  "audioBuffer (stopAudio s) = audioBuffer s"
  "objectUrls (stopAudio s) = objectUrls s"
  by (simp_all add: stopAudio_def stopSource_def Let_def split: option.splits)

lemma files_playAudio:
  "downloadUrl (playAudio b cb s) = downloadUrl s"
  "audioBuffer (playAudio b cb s) = audioBuffer s"
  "objectUrls (playAudio b cb s) = objectUrls s"
  by (simp_all add: playAudio_def stopSource_def Let_def split: option.splits)

lemma files_sourceEnded:
  "downloadUrl (sourceEnded n s) = downloadUrl s"
  "audioBuffer (sourceEnded n s) = audioBuffer s"
  "objectUrls (sourceEnded n s) = objectUrls s"
  by (simp_all add: sourceEnded_def Let_def split: option.splits on_ended.splits)

lemma files_ensureAudioContext:
  "downloadUrl (ensureAudioContext s) = downloadUrl s"
  "audioBuffer (ensureAudioContext s) = audioBuffer s"
  "objectUrls (ensureAudioContext s) = objectUrls s"
  by (simp_all add: ensureAudioContext_def split: option.splits)

lemmas files_simps = files_stopAudio files_playAudio files_sourceEnded files_ensureAudioContext

lemma files_handlePreview:
  "downloadUrl (handlePreview env v s) = downloadUrl s"
  "audioBuffer (handlePreview env v s) = audioBuffer s"
  "objectUrls (handlePreview env v s) = objectUrls s"
  by (simp_all add: handlePreview_def Let_def files_simps split: prod.splits sum.splits)

lemma generateSpeech_mono_24k:
  "generateSpeech env txt voice = (effs, Inr b) \<Longrightarrow> numberOfChannels b = 1 \<and> sampleRate b = 24000"
  by (auto simp add: generateSpeech_def decodeAudioData_def Let_def
      split: if_splits api_outcome.splits option.splits sum.splits)

lemma download_handleGenerate:
  assumes "downloadIsEncodedBuffer s"
  shows "downloadIsEncodedBuffer (handleGenerate env s)"
proof -
  let ?s3 = "(ensureAudioContext s)\<lparr>isLoading := True, audioBuffer := None\<rparr>"
  let ?s5 = "(case downloadUrl s of Some url \<Rightarrow> revokeObjectURL url ?s3 | None \<Rightarrow> ?s3)\<lparr>downloadUrl := None\<rparr>"
  have al: "downloadIsEncodedBuffer (s\<lparr>trace := t\<rparr>)" for t
    by (rule download_update [OF assms]) simp_all
  have bad: "downloadIsEncodedBuffer ((stopAudio ?s5)\<lparr>trace := t, isLoading := False\<rparr>)" for t
    by (rule download_none) (simp add: files_simps)
  have ok: "downloadIsEncodedBuffer
      ((playAudio b cb ((stopAudio ?s5)\<lparr>trace := t, audioBuffer := Some b,
          objectUrls := objectUrls (stopAudio ?s5) @ [Some (audioBufferToWav (pcmScale env) b)],
          trace := t', downloadUrl := Some (length (objectUrls (stopAudio ?s5)))\<rparr>))
        \<lparr>isPlaying_st := True, isLoading := False\<rparr>)"
    if "numberOfChannels b = 1" "sampleRate b = 24000" for b cb t t'
    using that by (auto simp add: downloadIsEncodedBuffer_def blobAt_def files_simps)
  show ?thesis
  proof (cases "js_trim (text_st s) = [] \<or> audioContextRef s = None")
    case True
    with assms show ?thesis by (auto simp add: handleGenerate_def)
  next
    case guard: False
    show ?thesis
    proof (cases "MAX_CHARS < length (text_st s)")
      case True
      with guard al show ?thesis by (auto simp add: handleGenerate_def)
    next
      case short: False
      show ?thesis
      proof (cases "find (\<lambda>v. voice_id v = selectedVoiceId s) VOICE_OPTIONS")
        case None
        with guard short assms show ?thesis by (auto simp add: handleGenerate_def)
      next
        case (Some opt)
        obtain effs r where g: "generateSpeech env (text_st s) (apiVoice opt) = (effs, r)"
          by (cases "generateSpeech env (text_st s) (apiVoice opt)")
        show ?thesis
        proof (cases r)
          case (Inl e)
          with guard short Some g bad show ?thesis
            by (auto simp add: handleGenerate_def Let_def)
        next
          case (Inr b)
          with g have "numberOfChannels b = 1" "sampleRate b = 24000"
            using generateSpeech_mono_24k by blast+
          from ok [OF this] guard short Some g Inr show ?thesis
            by (auto simp add: handleGenerate_def Let_def createObjectURL_def)
        qed
      qed
    qed
  qed
qed

lemma download_handleClear: "downloadIsEncodedBuffer (handleClear s)"
  by (rule download_none) (simp add: handleClear_def Let_def files_simps)

lemma reachable_download: "reachable s \<Longrightarrow> downloadIsEncodedBuffer s"
proof (induction rule: reachable.induct)
  case (mounted st)
  show ?case
    by (rule download_none) (simp add: mount_def initialState_def)
next
  case (setText s t)
  from setText.IH show ?case by (rule download_update) simp_all
next
  case (setSelectedVoiceId s v)
  from setSelectedVoiceId.IH show ?case by (rule download_update) simp_all
next
  case (preview s v env)
  from preview.IH show ?case by (rule download_update) (simp_all add: files_handlePreview)
next
  case (generate s env)
  then show ?case by (simp add: download_handleGenerate)
next
  case (clear s)
  show ?case by (rule download_handleClear)
next
  case (ended s n)
  from ended.IH show ?case by (rule download_update) (simp_all add: files_simps)
next
  case (stop s)
  from stop.IH show ?case by (rule download_update) (simp_all add: files_simps)
next
  case (play s buffer onEnded)
  from play.IH show ?case by (rule download_update) (simp_all add: files_simps)
qed

lemma field_header:
  "off + n \<le> 44 \<Longrightarrow> field off n (audioBufferToWav scale b) = field off n (wavHeader b)"
  by (simp add: field_def audioBufferToWav_def length_wavHeader)

text \<open>Claim C7. In every reachable state with a download URL, the URL is live and its
  file is the WAV encoding of the current audio buffer, the buffer \<open>generateSpeech\<close>
  decoded with one channel at 24000 Hz: a RIFF/WAVE file of 44 bytes and two bytes per
  frame, with format tag 1 (PCM), channel count 1, sample rate 24000 (\<open>0x5DC0\<close>) and 16
  bits per sample.\<close>

theorem download_is_mono_24k_wav:
  assumes "reachable s" and "downloadUrl s = Some u"
  shows "\<exists>wav scale b.
      blobAt s u = Some wav \<and> audioBuffer s = Some b \<and> wav = audioBufferToWav scale b
      \<and> numberOfChannels b = 1 \<and> sampleRate b = 24000
      \<and> length wav = 44 + buf_length b * 2
      \<and> field 0 4 wav = ascii ''RIFF'' \<and> field 8 4 wav = ascii ''WAVE''
      \<and> field 20 2 wav = [1, 0]
      \<and> field 22 2 wav = [1, 0]
      \<and> field 24 4 wav = [0xC0, 0x5D, 0, 0]
      \<and> field 34 2 wav = [16, 0]"
proof -
  from reachable_download [OF assms(1)] assms(2)
  obtain scale b where b: "blobAt s u = Some (audioBufferToWav scale b)" "audioBuffer s = Some b"
      "numberOfChannels b = 1" "sampleRate b = 24000"
    by (auto simp add: downloadIsEncodedBuffer_def)
  have len: "length (audioBufferToWav scale b) = 44 + buf_length b * 2"
    by (simp add: audioBufferToWav_def length_wavHeader length_wavData b)
  have f: "field 0 4 (audioBufferToWav scale b) = ascii ''RIFF''"
      "field 8 4 (audioBufferToWav scale b) = ascii ''WAVE''"
      "field 20 2 (audioBufferToWav scale b) = [1, 0]"
      "field 22 2 (audioBufferToWav scale b) = [1, 0]"
      "field 24 4 (audioBufferToWav scale b) = [0xC0, 0x5D, 0, 0]"
      "field 34 2 (audioBufferToWav scale b) = [16, 0]"
    by (simp_all add: field_header wavHeader_fields b u16le_def u32le_def)
  from b len f show ?thesis
    by blast
qed

theorem download_is_mono_24k_wav_witness:
  "reachable generatedState \<and> downloadUrl generatedState = Some 0
   \<and> (\<exists>wav. blobAt generatedState 0 = Some wav \<and> length wav = 48
         \<and> field 22 2 wav = [1, 0] \<and> field 24 4 wav = [0xC0, 0x5D, 0, 0])"
proof -
  have d: "downloadUrl generatedState = Some 0"
    by (simp add: generatedState_fields)
  have l: "buf_length (decodeAudioData sampleToFloat [0x00, 0x00, 0xFF, 0x7F] 24000 1) = 2"
    by (simp add: decodeAudioData_def)
  from download_is_mono_24k_wav [OF reachable_generatedState d]
  obtain wav scale b where w: "blobAt generatedState 0 = Some wav"
      "audioBuffer generatedState = Some b" "length wav = 44 + buf_length b * 2"
      "field 22 2 wav = [1, 0]" "field 24 4 wav = [0xC0, 0x5D, 0, 0]"
    by blast
  from w(2) have "b = decodeAudioData sampleToFloat [0x00, 0x00, 0xFF, 0x7F] 24000 1"
    by (simp add: generatedState_fields)
  with w(3) l have "length wav = 48"
    by simp
  with w reachable_generatedState d show ?thesis
    by blast
qed

end
